theory Spec2Isabelle
  imports Complex_Main "HOL-Library.Product_Lexorder"
begin

section \<open>Strings\<close>

text \<open>
  Python strings are modelled as \<^typ>\<open>string\<close>. The catalog, the keyword lists and the
  division keys of the program are plain ASCII, and the string operations below are the
  ASCII behaviour of \<^verbatim>\<open>str.lower\<close>, \<^verbatim>\<open>str.upper\<close>, \<^verbatim>\<open>str.replace\<close>, \<^verbatim>\<open>str.split\<close>
  and of the substring test \<^verbatim>\<open>a in b\<close>.
\<close>

definition lower_char :: "char \<Rightarrow> char" where
  "lower_char c =
     (case map_of (zip ''ABCDEFGHIJKLMNOPQRSTUVWXYZ'' ''abcdefghijklmnopqrstuvwxyz'') c of
        Some l \<Rightarrow> l
      | None \<Rightarrow> c)"

definition upper_char :: "char \<Rightarrow> char" where
  "upper_char c =
     (case map_of (zip ''abcdefghijklmnopqrstuvwxyz'' ''ABCDEFGHIJKLMNOPQRSTUVWXYZ'') c of
        Some u \<Rightarrow> u
      | None \<Rightarrow> c)"

definition str_lower :: "string \<Rightarrow> string" where
  "str_lower s = map lower_char s"

definition str_upper :: "string \<Rightarrow> string" where
  "str_upper s = map upper_char s"

text \<open>\<^verbatim>\<open>s.replace(" ", "_")\<close>: the only replacement the program performs.\<close>

definition str_replace_space :: "string \<Rightarrow> string" where
  "str_replace_space s = map (\<lambda>c. if c = CHR '' '' then CHR ''_'' else c) s"

fun starts_with :: "string \<Rightarrow> string \<Rightarrow> bool" where
  "starts_with [] ys = True"
| "starts_with (x # xs) [] = False"
| "starts_with (x # xs) (y # ys) = (x = y \<and> starts_with xs ys)"

text \<open>\<^verbatim>\<open>sub in s\<close>: \<open>sub\<close> occurs in \<open>s\<close> as a contiguous substring.\<close>

fun str_in :: "string \<Rightarrow> string \<Rightarrow> bool" where
  "str_in sub [] = (sub = [])"
| "str_in sub (c # cs) = (starts_with sub (c # cs) \<or> str_in sub cs)"

text \<open>
  \<^verbatim>\<open>s.split()\<close> with no argument: the maximal runs of characters that are not
  whitespace. The ASCII whitespace of Python strings is the blank, the control characters
  9 to 13 and 28 to 31.
\<close>

definition is_space :: "char \<Rightarrow> bool" where
  "is_space c =
     (c \<in> set [CHR '' '', CHR 0x09, CHR 0x0A, CHR 0x0B, CHR 0x0C, CHR 0x0D,
                CHR 0x1C, CHR 0x1D, CHR 0x1E, CHR 0x1F])"

fun split_from :: "string \<Rightarrow> string \<Rightarrow> string list" where
  "split_from word [] = (if word = [] then [] else [word])"
| "split_from word (c # cs) =
     (if is_space c then (if word = [] then split_from [] cs else word # split_from [] cs)
      else split_from (word @ [c]) cs)"

definition str_split :: "string \<Rightarrow> string list" where
  "str_split s = split_from [] s"

section \<open>Dictionaries\<close>

text \<open>
  A Python dictionary is modelled as an association list in insertion order, which is the
  order Python iterates it in. \<open>dict_get\<close> is \<^verbatim>\<open>d.get(k, default)\<close>; \<open>dict_set\<close> is
  \<^verbatim>\<open>d[k] = v\<close>: an existing key keeps its position, a new key goes last.
\<close>

definition dict_get :: "('k \<times> 'v) list \<Rightarrow> 'k \<Rightarrow> 'v \<Rightarrow> 'v" where
  "dict_get d k dflt = (case map_of d k of Some v \<Rightarrow> v | None \<Rightarrow> dflt)"

fun dict_set :: "('k \<times> 'v) list \<Rightarrow> 'k \<Rightarrow> 'v \<Rightarrow> ('k \<times> 'v) list" where
  "dict_set [] k v = [(k, v)]"
| "dict_set ((k', v') # d) k v =
     (if k' = k then (k', v) # d else (k', v') # dict_set d k v)"

section \<open>The catalog\<close>

text \<open>
  A training record. An entry of \<^verbatim>\<open>training_database\<close> is kept together with its key:
  the resolver always returns \<^verbatim>\<open>{**details, 'training_id': training_id}\<close>, which is
  this record.
\<close>

record training =
  training_id :: string
  training_name :: string
  school :: string
  target_division :: string
  target_level :: string
  duration_days :: int
  cost :: int
  job_family :: string
  learning_objectives :: "string list"

text \<open>The three tables a \<^verbatim>\<open>TrainingRecommendationSystem\<close> object holds.\<close>

record system =
  competency_training_mapping :: "(string \<times> string list) list"
  division_mapping :: "(string \<times> string list) list"
  training_database :: "training list"


definition setup_competency_mapping :: "(string \<times> string list) list" where
  "setup_competency_mapping =
    [(''core_information_seeking'', [''Teknologi Informasi'', ''Strategi SDM'']),
     (''core_resilience'', [''SDM'', ''Program Keahlian Khusus'']),
     (''core_achievement_orientation'', [''Strategi SDM'', ''Financial Management for Leader'']),
     (''core_concern_for_order'', [''Audit Internal & Manajemen Risiko'', ''Akuntansi & Keuangan'']),
     (''core_organizational_commitment'', [''SDM'', ''Strategi SDM'']),
     (''core_ethical_oriented'', [''Hukum'', ''Audit Internal dan Manajemen Risiko'']),
     (''managerial_building_collaborative_relationship'', [''SDM'', ''Strategi Pemasaran'']),
     (''managerial_business_savvy'', [''Agribusiness Productivity Institute'', ''Strategi SDM'']),
     (''managerial_customer_focus'', [''Strategi Pemasaran'', ''Agribusiness Productivity Institute'']),
     (''managerial_strategic_orientation'', [''Transformasi Strategis'', ''Strategi Transfrormasi'']),
     (''managerial_sustainability_mindset'', [''Operasional Tanaman Tebu (On Farm)'', ''Operasional Tanaman Sawit (On Farm)'']),
     (''managerial_execution_focused'', [''Operasional Pabrik Kelapa Sawit (Off Farm)'', ''Operasional Tanaman Karet (On Farm)'']),
     (''managerial_digital_literate'', [''Teknologi Informasi'', ''Transformasi Strategis'']),
     (''leadership_creativity_innovation'', [''Transformasi Strategis'', ''Strategi Transfrormasi'']),
     (''leadership_transformational_leadership'', [''SDM'', ''Strategi SDM'']),
     (''leadership_nurturing_empowering_people'', [''SDM'', ''Program Keahlian Khusus'']),
     (''leadership_managing_equality_diversity'', [''SDM'', ''Hukum''])]"

definition setup_division_mapping :: "(string \<times> string list) list" where
  "setup_division_mapping =
    [(''plantation'', [''Operasional Tanaman'', ''Agribusiness Productivity Institute'']),
     (''factory'', [''Operasional Pabrik'']),
     (''finance'', [''Akuntansi & Keuangan'', ''Financial Management'']),
     (''hr'', [''SDM'', ''Strategi SDM'']),
     (''it'', [''Teknologi Informasi'']),
     (''procurement'', [''Pengadaan'']),
     (''audit'', [''Audit Internal'']),
     (''legal'', [''Hukum'']),
     (''strategy'', [''Transformasi Strategis'', ''Strategi'']),
     (''marketing'', [''Strategi Pemasaran''])]"

definition PL_2024_418 :: training where
  "PL_2024_418 =
    \<lparr>training_id = ''PL-2024-418'',
     training_name = ''PENDEKATAN LOGIKA MENGIDENTIFIKASI ANOMALI PRODUKSI'',
     school = ''Agribusiness Productivity Institute'',
     target_division = ''plantation'',
     target_level = ''ALL'',
     duration_days = 3,
     cost = 6000000,
     job_family = ''Tanaman'',
     learning_objectives =
        [''Integrasi geospike dan lingkungan di perkebunan'',
         ''Seasonal effect di tanaman sawit'',
         ''Prinsip dasar pemahaman data produksi'',
         ''Metode identifikasi anomali di perkebunan'']\<rparr>"

definition PL_2024_P0153 :: training where
  "PL_2024_P0153 =
    \<lparr>training_id = ''PL-2024-P0153'',
     training_name = ''Budidaya Tanaman Tebu - Persiapan Lahan & Kultivasi'',
     school = ''Operasional Tanaman Tebu (On Farm)'',
     target_division = ''plantation'',
     target_level = ''Operasional'',
     duration_days = 5,
     cost = 5000000,
     job_family = ''Tanaman'',
     learning_objectives =
        [''Teknik dasar kultivasi tebu'',
         ''Manajemen pengairan dan irigasi'',
         ''Pengendalian OPT tebu'',
         ''Sustainable farming practices'']\<rparr>"

definition PL_2024_P0154 :: training where
  "PL_2024_P0154 =
    \<lparr>training_id = ''PL-2024-P0154'',
     training_name = ''Operasional Tanaman Sawit - Advanced Plantation Management'',
     school = ''Operasional Tanaman Sawit (On Farm)'',
     target_division = ''plantation'',
     target_level = ''Manager'',
     duration_days = 4,
     cost = 7500000,
     job_family = ''Tanaman'',
     learning_objectives =
        [''Advanced plantation management techniques'',
         ''Yield optimization strategies'',
         ''Team leadership in plantation operations'',
         ''Environmental sustainability practices'']\<rparr>"

definition FC_2024_201 :: training where
  "FC_2024_201 =
    \<lparr>training_id = ''FC-2024-201'',
     training_name = ''Operasional Pabrik Kelapa Sawit - Process Optimization'',
     school = ''Operasional Pabrik Kelapa Sawit (Off Farm)'',
     target_division = ''factory'',
     target_level = ''ALL'',
     duration_days = 6,
     cost = 8000000,
     job_family = ''Pabrik'',
     learning_objectives =
        [''Advanced palm oil processing techniques'',
         ''Quality control and assurance'',
         ''Equipment maintenance and optimization'',
         ''Safety protocols and procedures'']\<rparr>"

definition FC_2024_202 :: training where
  "FC_2024_202 =
    \<lparr>training_id = ''FC-2024-202'',
     training_name = ''Manufacturing Excellence & Lean Production'',
     school = ''Operasional Pabrik Kelapa Sawit (Off Farm)'',
     target_division = ''factory'',
     target_level = ''Supervisor'',
     duration_days = 4,
     cost = 6500000,
     job_family = ''Pabrik'',
     learning_objectives =
        [''Lean manufacturing principles'',
         ''Continuous improvement methodologies'',
         ''Team leadership in manufacturing'',
         ''Waste reduction techniques'']\<rparr>"

definition FN_2024_301 :: training where
  "FN_2024_301 =
    \<lparr>training_id = ''FN-2024-301'',
     training_name = ''Financial Management for Leaders'',
     school = ''Financial Management for Leader (Jakarta)'',
     target_division = ''finance'',
     target_level = ''Manager'',
     duration_days = 5,
     cost = 9000000,
     job_family = ''Keuangan'',
     learning_objectives =
        [''Strategic financial planning'',
         ''Investment analysis and decision making'',
         ''Financial risk management'',
         ''Budget planning and control'',
         ''Leadership in finance function'']\<rparr>"

definition FN_2024_302 :: training where
  "FN_2024_302 =
    \<lparr>training_id = ''FN-2024-302'',
     training_name = ''Advanced Accounting & Financial Reporting'',
     school = ''Akuntansi & Keuangan'',
     target_division = ''finance'',
     target_level = ''ALL'',
     duration_days = 4,
     cost = 5500000,
     job_family = ''Keuangan'',
     learning_objectives =
        [''Advanced accounting principles'',
         ''Financial reporting standards'',
         ''Digital accounting systems'',
         ''Compliance and regulatory requirements'']\<rparr>"

definition HR_2024_401 :: training where
  "HR_2024_401 =
    \<lparr>training_id = ''HR-2024-401'',
     training_name = ''Strategic Human Resource Management'',
     school = ''SDM'',
     target_division = ''hr'',
     target_level = ''Manager'',
     duration_days = 5,
     cost = 7000000,
     job_family = ''SDM'',
     learning_objectives =
        [''Strategic HR planning and execution'',
         ''Talent management and development'',
         ''Employee engagement strategies'',
         ''Performance management systems'',
         ''Diversity and inclusion practices'']\<rparr>"

definition HR_2024_402 :: training where
  "HR_2024_402 =
    \<lparr>training_id = ''HR-2024-402'',
     training_name = ''Employee Development & Training Design'',
     school = ''Program Keahlian Khusus'',
     target_division = ''hr'',
     target_level = ''ALL'',
     duration_days = 4,
     cost = 5000000,
     job_family = ''SDM'',
     learning_objectives =
        [''Training needs analysis'',
         ''Learning program design'',
         ''Adult learning principles'',
         ''Training evaluation methods'']\<rparr>"

definition IT_2024_501 :: training where
  "IT_2024_501 =
    \<lparr>training_id = ''IT-2024-501'',
     training_name = ''Digital Transformation & Technology Leadership'',
     school = ''Teknologi Informasi'',
     target_division = ''it'',
     target_level = ''Manager'',
     duration_days = 6,
     cost = 10000000,
     job_family = ''IT'',
     learning_objectives =
        [''Digital transformation strategies'',
         ''IT governance and management'',
         ''Emerging technology evaluation'',
         ''Cybersecurity leadership'',
         ''Innovation management in IT'']\<rparr>"

definition IT_2024_502 :: training where
  "IT_2024_502 =
    \<lparr>training_id = ''IT-2024-502'',
     training_name = ''Information Systems & Data Analytics'',
     school = ''Teknologi Informasi'',
     target_division = ''it'',
     target_level = ''ALL'',
     duration_days = 5,
     cost = 7500000,
     job_family = ''IT'',
     learning_objectives =
        [''Database design and management'',
         ''Data analytics and visualization'',
         ''Business intelligence systems'',
         ''System integration techniques'']\<rparr>"

definition PR_2024_601 :: training where
  "PR_2024_601 =
    \<lparr>training_id = ''PR-2024-601'',
     training_name = ''Strategic Procurement & Supply Chain Management'',
     school = ''Pengadaan'',
     target_division = ''procurement'',
     target_level = ''Manager'',
     duration_days = 5,
     cost = 8000000,
     job_family = ''Pengadaan'',
     learning_objectives =
        [''Strategic sourcing methodologies'',
         ''Supplier relationship management'',
         ''Contract negotiation and management'',
         ''Supply chain optimization'',
         ''Risk management in procurement'']\<rparr>"

definition PR_2024_602 :: training where
  "PR_2024_602 =
    \<lparr>training_id = ''PR-2024-602'',
     training_name = ''Procurement Operations & Vendor Management'',
     school = ''Pengadaan'',
     target_division = ''procurement'',
     target_level = ''ALL'',
     duration_days = 4,
     cost = 5500000,
     job_family = ''Pengadaan'',
     learning_objectives =
        [''Procurement processes and procedures'',
         ''Vendor evaluation and selection'',
         ''Cost analysis and budgeting'',
         ''Compliance and ethics in procurement'']\<rparr>"

definition AD_2024_701 :: training where
  "AD_2024_701 =
    \<lparr>training_id = ''AD-2024-701'',
     training_name = ''Internal Audit & Risk Management Leadership'',
     school = ''Audit Internal & Manajemen Risiko'',
     target_division = ''audit'',
     target_level = ''Manager'',
     duration_days = 6,
     cost = 9500000,
     job_family = ''Audit'',
     learning_objectives =
        [''Advanced internal auditing techniques'',
         ''Enterprise risk management'',
         ''Audit leadership and team management'',
         ''Regulatory compliance frameworks'',
         ''Fraud detection and prevention'']\<rparr>"

definition AD_2024_702 :: training where
  "AD_2024_702 =
    \<lparr>training_id = ''AD-2024-702'',
     training_name = ''Risk Assessment & Control Systems'',
     school = ''Audit Internal dan Manajemen Risiko'',
     target_division = ''audit'',
     target_level = ''ALL'',
     duration_days = 4,
     cost = 6000000,
     job_family = ''Audit'',
     learning_objectives =
        [''Risk identification and assessment'',
         ''Internal control evaluation'',
         ''Audit documentation and reporting'',
         ''Technology-assisted audit techniques'']\<rparr>"

definition LG_2024_801 :: training where
  "LG_2024_801 =
    \<lparr>training_id = ''LG-2024-801'',
     training_name = ''Corporate Law & Regulatory Compliance'',
     school = ''Hukum'',
     target_division = ''legal'',
     target_level = ''ALL'',
     duration_days = 5,
     cost = 7500000,
     job_family = ''Hukum'',
     learning_objectives =
        [''Corporate governance principles'',
         ''Regulatory compliance management'',
         ''Contract law and negotiations'',
         ''Employment law and regulations'',
         ''Business ethics and compliance'']\<rparr>"

definition ST_2024_901 :: training where
  "ST_2024_901 =
    \<lparr>training_id = ''ST-2024-901'',
     training_name = ''Strategic Transformation & Change Management'',
     school = ''Transformasi Strategis'',
     target_division = ''strategy'',
     target_level = ''Manager'',
     duration_days = 7,
     cost = 12000000,
     job_family = ''Strategi'',
     learning_objectives =
        [''Strategic planning and execution'',
         ''Change management methodologies'',
         ''Digital transformation strategies'',
         ''Innovation management'',
         ''Organizational development'']\<rparr>"

definition ST_2024_902 :: training where
  "ST_2024_902 =
    \<lparr>training_id = ''ST-2024-902'',
     training_name = ''Marketing Strategy & Customer Excellence'',
     school = ''Strategi Pemasaran'',
     target_division = ''marketing'',
     target_level = ''ALL'',
     duration_days = 4,
     cost = 6500000,
     job_family = ''Pemasaran'',
     learning_objectives =
        [''Market analysis and segmentation'',
         ''Customer relationship management'',
         ''Brand management and positioning'',
         ''Digital marketing strategies'']\<rparr>"

definition GM_2024_001 :: training where
  "GM_2024_001 =
    \<lparr>training_id = ''GM-2024-001'',
     training_name = ''Executive Leadership Development Program'',
     school = ''Strategi SDM'',
     target_division = ''ALL'',
     target_level = ''Senior Manager'',
     duration_days = 10,
     cost = 15000000,
     job_family = ''Umum'',
     learning_objectives =
        [''Executive leadership skills'',
         ''Strategic thinking and planning'',
         ''Organizational transformation'',
         ''High-performance team building'',
         ''Stakeholder management'',
         ''Innovation and change leadership'']\<rparr>"

definition setup_training_database :: "training list" where
  "setup_training_database =
    [PL_2024_418,
     PL_2024_P0153,
     PL_2024_P0154,
     FC_2024_201,
     FC_2024_202,
     FN_2024_301,
     FN_2024_302,
     HR_2024_401,
     HR_2024_402,
     IT_2024_501,
     IT_2024_502,
     PR_2024_601,
     PR_2024_602,
     AD_2024_701,
     AD_2024_702,
     LG_2024_801,
     ST_2024_901,
     ST_2024_902,
     GM_2024_001]"

definition TrainingRecommendationSystem :: system where
  "TrainingRecommendationSystem =
    \<lparr>competency_training_mapping = setup_competency_mapping,
     division_mapping = setup_division_mapping,
     training_database = setup_training_database\<rparr>"

section \<open>Assessments, recommendations and responses\<close>

text \<open>
  Scores are Python floats, modelled as real numbers: comparisons and the arithmetic of
  the scorer are those of the reals (no rounding error, no NaN). A score as the caller
  supplies it is either a value that \<^verbatim>\<open>float(score)\<close> converts, or any other value, on
  which \<^verbatim>\<open>float\<close> raises; the string is the message of the exception.
\<close>

datatype score_value = Number real | NotANumber string

definition py_float :: "score_value \<Rightarrow> string + real" where
  "py_float v = (case v of Number x \<Rightarrow> Inr x | NotANumber msg \<Rightarrow> Inl msg)"

text \<open>
  The assessment dictionary. A field is \<open>None\<close> when the key is absent, so that every
  \<^verbatim>\<open>assessment_data.get(key, default)\<close> of the program is a case distinction here.
\<close>

record assessment =
  employee_id :: "string option"
  current_position :: "string option"
  division :: "string option"
  experience_level :: "string option"
  core_competency_scores :: "(string \<times> score_value) list option"
  managerial_competency_scores :: "(string \<times> score_value) list option"
  leadership_competency_scores :: "(string \<times> score_value) list option"

definition get_or :: "'a option \<Rightarrow> 'a \<Rightarrow> 'a" where
  "get_or field dflt = (case field of Some v \<Rightarrow> v | None \<Rightarrow> dflt)"

record recommendation =
  competency_gap :: string
  current_score :: real
  training_details :: training
  relevance_score :: real
  priority_level :: int
  expected_improvement :: real
  timeline :: string

record formatted_rec =
  priority :: int
  competency_gap :: string
  current_score :: real
  target_score :: real
  recommended_training :: training
  relevance_score :: real
  expected_improvement :: real
  timeline :: string

record development_path =
  critical :: "string list"
  high_priority :: "string list"
  medium_priority :: "string list"

record summary =
  total_recommendations :: int
  total_estimated_cost :: int
  total_estimated_duration :: int

text \<open>
  The response dictionary. The error response has the keys \<^verbatim>\<open>error\<close>,
  \<^verbatim>\<open>employee_id\<close>, \<^verbatim>\<open>recommendations\<close> and \<^verbatim>\<open>summary\<close>; the regular response has no
  \<^verbatim>\<open>error\<close> key and has \<^verbatim>\<open>assessment_date\<close> and \<^verbatim>\<open>development_path\<close>.
  The type of the employee identifier is a parameter: a string for the assessment
  record above, any Python value for an assessment whose values are not checked.
\<close>

record 'id response =
  error :: "string option"
  employee_id :: 'id
  assessment_date :: "string option"
  recommendations :: "formatted_rec list"
  development_path :: "development_path option"
  summary :: summary

section \<open>Gap analysis\<close>

text \<open>
  One of the three iterations of \<^verbatim>\<open>identify_priority_areas\<close>: every score of a group is
  converted with \<^verbatim>\<open>float\<close> and stored in \<^verbatim>\<open>all_scores\<close> under the prefixed key. The
  first conversion that raises ends the function with that exception.
\<close>

fun add_scores ::
  "string \<Rightarrow> (string \<times> score_value) list \<Rightarrow> (string \<times> real) list \<Rightarrow> string + (string \<times> real) list"
where
  "add_scores pre [] all_scores = Inr all_scores"
| "add_scores pre ((competency, score) # rest) all_scores =
     (case py_float score of
        Inl e \<Rightarrow> Inl e
      | Inr x \<Rightarrow> add_scores pre rest (dict_set all_scores (pre @ competency) x))"

definition identify_priority_areas :: "assessment \<Rightarrow> string + (string \<times> real) list" where
  "identify_priority_areas assessment_data =
     (case add_scores ''core_'' (get_or (core_competency_scores assessment_data) []) [] of
        Inl e \<Rightarrow> Inl e
      | Inr all_scores \<Rightarrow>
     (case add_scores ''managerial_''
             (get_or (managerial_competency_scores assessment_data) []) all_scores of
        Inl e \<Rightarrow> Inl e
      | Inr all_scores \<Rightarrow>
     (case add_scores ''leadership_''
             (get_or (leadership_competency_scores assessment_data) []) all_scores of
        Inl e \<Rightarrow> Inl e
      | Inr all_scores \<Rightarrow> Inr (take 5 (sort_key snd all_scores)))))"

definition get_priority_level :: "real \<Rightarrow> int" where
  "get_priority_level score =
     (if score < 2.0 then 1
      else if score < 3.0 then 2
      else if score < 3.5 then 3
      else 4)"

definition get_timeline :: "int \<Rightarrow> string" where
  "get_timeline level =
     dict_get
       [(1, ''Immediate (within 1 month)''),
        (2, ''High Priority (within 3 months)''),
        (3, ''Medium Priority (within 6 months)''),
        (4, ''Low Priority (within 12 months)'')]
       level ''To be scheduled''"

section \<open>Context filter\<close>

definition is_management_training :: "string \<Rightarrow> bool" where
  "is_management_training name =
     (if name = [] then False
      else list_ex (\<lambda>keyword. str_in keyword (str_lower name))
             [''strategi'', ''leadership'', ''management'', ''manajemen'', ''strategic'',
              ''executive''])"

definition is_advanced_training :: "string \<Rightarrow> bool" where
  "is_advanced_training name =
     (if name = [] then False
      else list_ex (\<lambda>keyword. str_in keyword (str_lower name))
             [''advanced'', ''strategic'', ''transformasi'', ''leadership'', ''executive''])"

text \<open>
  \<^verbatim>\<open>list(set(filtered))\<close> lists the distinct elements of \<open>filtered\<close> in the iteration
  order of a Python set, which depends on the string hashes of the running interpreter.
  The order is a parameter \<open>set_order\<close> of the model; \<open>set_listing\<close> says that it lists
  every element once.
\<close>

definition set_listing :: "(string list \<Rightarrow> string list) \<Rightarrow> bool" where
  "set_listing set_order = (\<forall>xs. distinct (set_order xs) \<and> set (set_order xs) = set xs)"

definition has_keyword :: "string list \<Rightarrow> string \<Rightarrow> bool" where
  "has_keyword keywords t = list_ex (\<lambda>keyword. str_in keyword (str_lower t)) keywords"

definition filter_by_context ::
  "system \<Rightarrow> (string list \<Rightarrow> string list) \<Rightarrow> string list \<Rightarrow> string \<Rightarrow> string \<Rightarrow> string \<Rightarrow> string list"
where
  "filter_by_context self set_order trainings position division' experience =
     (let filtered = trainings;
          filtered =
            (if str_in ''manager'' (str_lower position) \<or> str_in ''supervisor'' (str_lower position)
             then filtered @
                  filter (has_keyword [''strategic'', ''leadership'', ''management'', ''manajemen'',
                                       ''transformasi'']) trainings
             else filtered);
          division_trainings = dict_get (division_mapping self) (str_lower division') [];
          filtered =
            (if division_trainings \<noteq> []
             then filtered @
                  filter (\<lambda>t. list_ex (\<lambda>dt. str_in (str_lower dt) (str_lower t)) division_trainings)
                    trainings
             else filtered);
          filtered =
            (if str_lower experience = ''junior''
             then filter (\<lambda>t. \<not> has_keyword [''advanced'', ''strategic'', ''transformasi'',
                                               ''executive''] t) filtered
             else if str_lower experience = ''senior''
             then filtered @
                  filter (has_keyword [''strategic'', ''leadership'', ''transformasi'']) trainings
             else filtered)
      in set_order filtered)"

section \<open>Relevance scorer\<close>

definition calculate_relevance_score ::
  "string \<Rightarrow> real \<Rightarrow> training \<Rightarrow> assessment \<Rightarrow> real"
where
  "calculate_relevance_score competency score details employee_data =
     (let base_score = 5.0 - score;
          current_position = str_lower (get_or (assessment.current_position employee_data) '''');
          position_multiplier =
            (if str_in ''manager'' current_position \<or> str_in ''supervisor'' current_position
             then (if is_management_training (training_name details) then 1.5 else 1.0)
             else 1.0);
          target_division = str_lower (training.target_division details);
          employee_division = str_lower (get_or (division employee_data) '''');
          division_multiplier =
            (if target_division = employee_division \<or> target_division = ''all''
             then 1.3 else 1.0);
          experience_level = str_lower (get_or (assessment.experience_level employee_data) '''');
          experience_multiplier =
            (if experience_level = ''junior''
             then (if \<not> is_advanced_training (training_name details) then 1.2 else 1.0)
             else if experience_level = ''senior''
             then (if is_advanced_training (training_name details) then 1.2 else 1.0)
             else 1.0);
          final_score =
            base_score * position_multiplier * division_multiplier * experience_multiplier
      in max 0.1 (min 10.0 final_score))"

section \<open>Training resolver\<close>

definition generic_training :: "string \<Rightarrow> training" where
  "generic_training training_school =
     \<lparr>training_id = ''GENERIC_'' @ str_upper (str_replace_space training_school),
      training_name = ''Training Program for '' @ training_school,
      school = training_school,
      target_division = ''general'',
      target_level = ''ALL'',
      duration_days = 3,
      cost = 5000000,
      job_family = ''General'',
      learning_objectives = [''Competency development'', ''Skill enhancement'']\<rparr>"

text \<open>The second loop of \<^verbatim>\<open>get_training_details\<close>: the first record a word matches.\<close>

fun partial_match :: "string \<Rightarrow> training list \<Rightarrow> training option" where
  "partial_match training_school [] = None"
| "partial_match training_school (details # rest) =
     (let school_words = str_split (str_lower training_school) in
      if list_ex (\<lambda>word. str_in word (str_lower (school details))) school_words
      then Some details
      else partial_match training_school rest)"

text \<open>
  The result is \<open>None\<close> only where the program's handler returns \<^verbatim>\<open>None\<close>; on strings
  no statement of the body raises, so that branch has no counterpart here.
\<close>

definition get_training_details :: "system \<Rightarrow> string \<Rightarrow> training option" where
  "get_training_details self training_school =
     (let matching_trainings =
            filter (\<lambda>details. str_in (str_lower training_school) (str_lower (school details)))
              (training_database self)
      in case matching_trainings of
           first # _ \<Rightarrow> Some first
         | [] \<Rightarrow>
             (case partial_match training_school (training_database self) of
                Some details \<Rightarrow> Some details
              | None \<Rightarrow> Some (generic_training training_school)))"

section \<open>Recommendation assembler\<close>

text \<open>
  \<^verbatim>\<open>round(x, 2)\<close> on the reals: to the nearest hundredth, a tie to the even one.
\<close>

definition round2 :: "real \<Rightarrow> real" where
  "round2 x =
     (let y = x * 100; f = \<lfloor>y\<rfloor>; d = y - of_int f in
      of_int (if d < 1 / 2 then f else if 1 / 2 < d then f + 1
              else if even f then f else f + 1) / 100)"

definition format_rec :: "int \<Rightarrow> recommendation \<Rightarrow> formatted_rec" where
  "format_rec i rec =
     \<lparr>priority = i,
      competency_gap = recommendation.competency_gap rec,
      current_score = recommendation.current_score rec,
      target_score =
        min 5.0 (recommendation.current_score rec + recommendation.expected_improvement rec),
      recommended_training = training_details rec,
      relevance_score = round2 (recommendation.relevance_score rec),
      expected_improvement = recommendation.expected_improvement rec,
      timeline = recommendation.timeline rec\<rparr>"

definition categorize :: "recommendation \<Rightarrow> development_path \<Rightarrow> development_path" where
  "categorize rec path =
     (if priority_level rec = 1
      then path\<lparr>critical := critical path @ [recommendation.competency_gap rec]\<rparr>
      else if priority_level rec = 2
      then path\<lparr>high_priority := high_priority path @ [recommendation.competency_gap rec]\<rparr>
      else path\<lparr>medium_priority := medium_priority path @ [recommendation.competency_gap rec]\<rparr>)"

text \<open>
  The loop \<^verbatim>\<open>for i, rec in enumerate(recommendations, 1)\<close> of \<^verbatim>\<open>_build_response\<close>,
  with the two parts of the response it appends to as its state.
\<close>

fun format_loop ::
  "int \<Rightarrow> recommendation list \<Rightarrow> formatted_rec list \<times> development_path
     \<Rightarrow> formatted_rec list \<times> development_path"
where
  "format_loop i [] state = state"
| "format_loop i (rec # rest) (formatted, path) =
     format_loop (i + 1) rest (formatted @ [format_rec i rec], categorize rec path)"

text \<open>
  \<^verbatim>\<open>_build_response\<close>. The date of \<^verbatim>\<open>datetime.now()\<close>, already formatted, is the
  parameter \<open>today\<close>. Every \<^verbatim>\<open>training_details\<close> is a non-empty dictionary, so the
  filter of the two sums keeps every recommendation; on these types no statement of
  the body raises, and the handler of the function has no counterpart here.
\<close>

definition build_response ::
  "string \<Rightarrow> assessment \<Rightarrow> recommendation list \<Rightarrow> string response"
where
  "build_response today assessment_data recs =
     (let total_cost = sum_list (map (\<lambda>rec. cost (training_details rec)) recs);
          total_duration =
            sum_list (map (\<lambda>rec. duration_days (training_details rec)) recs);
          (formatted, path) =
            format_loop 1 recs
              ([], \<lparr>critical = [], high_priority = [], medium_priority = []\<rparr>)
      in \<lparr>error = None,
          employee_id = get_or (assessment.employee_id assessment_data) ''Unknown'',
          assessment_date = Some today,
          recommendations = formatted,
          development_path = Some path,
          summary =
            \<lparr>total_recommendations = int (length recs),
             total_estimated_cost = total_cost,
             total_estimated_duration = total_duration\<rparr>\<rparr>)"

text \<open>
  The body of the loop over the priority areas in \<^verbatim>\<open>recommend_training\<close>: the
  recommendations one gap contributes, in the order the filtered schools are listed.
\<close>

definition recommendations_for ::
  "system \<Rightarrow> (string list \<Rightarrow> string list) \<Rightarrow> assessment \<Rightarrow> string \<times> real \<Rightarrow> recommendation list"
where
  "recommendations_for self set_order assessment_data area =
     (let competency = fst area; score = snd area;
          potential_trainings = dict_get (competency_training_mapping self) competency []
      in if potential_trainings = [] then []
         else
           let filtered_trainings =
                 filter_by_context self set_order potential_trainings
                   (get_or (current_position assessment_data) '''')
                   (get_or (division assessment_data) '''')
                   (get_or (experience_level assessment_data) '''')
           in concat (map (\<lambda>training_school.
                 case get_training_details self training_school of
                   None \<Rightarrow> []
                 | Some details \<Rightarrow>
                     [\<lparr>recommendation.competency_gap = competency,
                       recommendation.current_score = score,
                       training_details = details,
                       recommendation.relevance_score =
                         calculate_relevance_score competency score details assessment_data,
                       priority_level = get_priority_level score,
                       recommendation.expected_improvement = min 2.0 (5.0 - score),
                       recommendation.timeline = get_timeline (get_priority_level score)\<rparr>])
               filtered_trainings))"

definition error_response :: "string \<Rightarrow> assessment \<Rightarrow> string response" where
  "error_response e assessment_data =
     \<lparr>error = Some e,
      employee_id = get_or (assessment.employee_id assessment_data) ''Unknown'',
      assessment_date = None,
      recommendations = [],
      development_path = None,
      summary =
        \<lparr>total_recommendations = 0, total_estimated_cost = 0,
         total_estimated_duration = 0\<rparr>\<rparr>"

text \<open>
  \<^verbatim>\<open>recommend_training\<close>: an exception of the body (here, of the gap analysis) is
  caught and becomes the error response. The calls of \<^verbatim>\<open>st.error\<close> only write to the
  user interface and are left out.
\<close>

definition recommend_training ::
  "system \<Rightarrow> (string list \<Rightarrow> string list) \<Rightarrow> string \<Rightarrow> assessment \<Rightarrow> string response"
where
  "recommend_training self set_order today assessment_data =
     (case identify_priority_areas assessment_data of
        Inl e \<Rightarrow> error_response e assessment_data
      | Inr priority_areas \<Rightarrow>
          (let recs =
                 concat (map (recommendations_for self set_order assessment_data) priority_areas);
               recs =
                 sort_key (\<lambda>x. (priority_level x, - recommendation.relevance_score x)) recs;
               top_recommendations = take 3 recs
           in build_response today assessment_data top_recommendations))"

section \<open>Assessments whose values are not checked\<close>

text \<open>
  The assessment record above gives every key the type the program expects. The caller
  passes a dictionary, and nothing checks its values: a score group that is not a
  dictionary, a score that is not a number, a position, division or experience level
  that is not a string all reach the program, and each makes a statement of it raise.
  This section embeds the same functions once more on unchecked values, every raise as
  the result \<open>Inl\<close>, and both handlers as they are written.

  A Python value, as far as the program tells values apart: \<open>PyNumber\<close> stands for the
  values \<^verbatim>\<open>float\<close> converts without reading text (\<^verbatim>\<open>int\<close>, \<^verbatim>\<open>float\<close>, \<^verbatim>\<open>bool\<close>),
  \<open>PyList\<close> for a value that is neither of the others. Dictionary keys are strings.
\<close>

datatype py_value =
  PyNone
| PyStr string
| PyNumber real
| PyList "py_value list"
| PyDict "(string \<times> py_value) list"

text \<open>
  The exceptions these values can raise in the program: an attribute the object does not
  have, a \<^verbatim>\<open>float\<close> argument of the wrong type, and a string \<^verbatim>\<open>float\<close> cannot read.
\<close>

datatype exn =
  AttributeError py_value string
| TypeError py_value
| ValueError string

text \<open>Sequencing: the first statement that raises ends the block.\<close>

definition and_then :: "exn + 'a \<Rightarrow> ('a \<Rightarrow> exn + 'b) \<Rightarrow> exn + 'b" where
  "and_then m f = (case m of Inl e \<Rightarrow> Inl e | Inr x \<Rightarrow> f x)"

text \<open>\<^verbatim>\<open>obj.get(key, dflt)\<close>, \<^verbatim>\<open>obj.items()\<close> and \<^verbatim>\<open>obj.lower()\<close>.\<close>

definition py_get :: "py_value \<Rightarrow> string \<Rightarrow> py_value \<Rightarrow> exn + py_value" where
  "py_get obj key dflt =
     (case obj of
        PyDict d \<Rightarrow> Inr (dict_get d key dflt)
      | _ \<Rightarrow> Inl (AttributeError obj ''get''))"

definition py_items :: "py_value \<Rightarrow> exn + (string \<times> py_value) list" where
  "py_items obj =
     (case obj of
        PyDict d \<Rightarrow> Inr d
      | _ \<Rightarrow> Inl (AttributeError obj ''items''))"

definition py_lower :: "py_value \<Rightarrow> exn + string" where
  "py_lower obj =
     (case obj of
        PyStr s \<Rightarrow> Inr (str_lower s)
      | _ \<Rightarrow> Inl (AttributeError obj ''lower''))"

text \<open>
  \<^verbatim>\<open>float(obj)\<close>. How Python reads a number from text is the parameter \<open>parse_float\<close>,
  which is \<open>None\<close> on a string that is no number.
\<close>

definition float_of :: "(string \<Rightarrow> real option) \<Rightarrow> py_value \<Rightarrow> exn + real" where
  "float_of parse_float obj =
     (case obj of
        PyNumber x \<Rightarrow> Inr x
      | PyStr s \<Rightarrow> (case parse_float s of Some x \<Rightarrow> Inr x | None \<Rightarrow> Inl (ValueError s))
      | _ \<Rightarrow> Inl (TypeError obj))"

fun add_values ::
  "(string \<Rightarrow> real option) \<Rightarrow> string \<Rightarrow> (string \<times> py_value) list \<Rightarrow> (string \<times> real) list
     \<Rightarrow> exn + (string \<times> real) list"
where
  "add_values parse_float pre [] all_scores = Inr all_scores"
| "add_values parse_float pre ((competency, score) # rest) all_scores =
     and_then (float_of parse_float score) (\<lambda>x.
       add_values parse_float pre rest (dict_set all_scores (pre @ competency) x))"

definition identify_priority_areas_raw ::
  "(string \<Rightarrow> real option) \<Rightarrow> py_value \<Rightarrow> exn + (string \<times> real) list"
where
  "identify_priority_areas_raw parse_float assessment_data =
     and_then (py_get assessment_data ''core_competency_scores'' (PyDict [])) (\<lambda>core_scores.
     and_then (py_items core_scores) (\<lambda>core_items.
     and_then (add_values parse_float ''core_'' core_items []) (\<lambda>all_scores.
     and_then (py_get assessment_data ''managerial_competency_scores'' (PyDict []))
       (\<lambda>managerial_scores.
     and_then (py_items managerial_scores) (\<lambda>managerial_items.
     and_then (add_values parse_float ''managerial_'' managerial_items all_scores) (\<lambda>all_scores.
     and_then (py_get assessment_data ''leadership_competency_scores'' (PyDict []))
       (\<lambda>leadership_scores.
     and_then (py_items leadership_scores) (\<lambda>leadership_items.
     and_then (add_values parse_float ''leadership_'' leadership_items all_scores) (\<lambda>all_scores.
     Inr (take 5 (sort_key snd all_scores)))))))))))"

text \<open>
  \<^verbatim>\<open>filter_by_context\<close> calls \<^verbatim>\<open>lower\<close> on the position first, then on the division,
  then on the experience level, and nothing else in it can raise: the first of the three
  that is not a string raises, and on three strings the function is the one above.
\<close>

definition filter_by_context_raw ::
  "system \<Rightarrow> (string list \<Rightarrow> string list) \<Rightarrow> string list \<Rightarrow> py_value \<Rightarrow> py_value \<Rightarrow> py_value
     \<Rightarrow> exn + string list"
where
  "filter_by_context_raw self set_order trainings position division' experience =
     (case position of
        PyStr p \<Rightarrow>
          (case division' of
             PyStr d \<Rightarrow>
               (case experience of
                  PyStr e \<Rightarrow> Inr (filter_by_context self set_order trainings p d e)
                | _ \<Rightarrow> Inl (AttributeError experience ''lower''))
           | _ \<Rightarrow> Inl (AttributeError division' ''lower''))
      | _ \<Rightarrow> Inl (AttributeError position ''lower''))"

definition calculate_relevance_score_raw ::
  "string \<Rightarrow> real \<Rightarrow> training \<Rightarrow> py_value \<Rightarrow> exn + real"
where
  "calculate_relevance_score_raw competency score details employee_data =
     (let base_score = 5.0 - score in
      and_then (py_get employee_data ''current_position'' (PyStr '''')) (\<lambda>position.
      and_then (py_lower position) (\<lambda>current_position.
      let position_multiplier =
            (if str_in ''manager'' current_position \<or> str_in ''supervisor'' current_position
             then (if is_management_training (training_name details) then 1.5 else 1.0)
             else 1.0);
          target_division = str_lower (training.target_division details)
      in
      and_then (py_get employee_data ''division'' (PyStr '''')) (\<lambda>division'.
      and_then (py_lower division') (\<lambda>employee_division.
      let division_multiplier =
            (if target_division = employee_division \<or> target_division = ''all''
             then 1.3 else 1.0)
      in
      and_then (py_get employee_data ''experience_level'' (PyStr '''')) (\<lambda>experience.
      and_then (py_lower experience) (\<lambda>experience_level.
      let experience_multiplier =
            (if experience_level = ''junior''
             then (if \<not> is_advanced_training (training_name details) then 1.2 else 1.0)
             else if experience_level = ''senior''
             then (if is_advanced_training (training_name details) then 1.2 else 1.0)
             else 1.0);
          final_score =
            base_score * position_multiplier * division_multiplier * experience_multiplier
      in Inr (max 0.1 (min 10.0 final_score)))))))))"

text \<open>
  The inner loop of \<^verbatim>\<open>recommend_training\<close>, over the filtered schools of one gap, with
  the list of recommendations as its state.
\<close>

fun score_trainings ::
  "system \<Rightarrow> py_value \<Rightarrow> string \<Rightarrow> real \<Rightarrow> string list \<Rightarrow> recommendation list
     \<Rightarrow> exn + recommendation list"
where
  "score_trainings self assessment_data competency score [] recs = Inr recs"
| "score_trainings self assessment_data competency score (training_school # rest) recs =
     (case get_training_details self training_school of
        None \<Rightarrow> score_trainings self assessment_data competency score rest recs
      | Some details \<Rightarrow>
          and_then (calculate_relevance_score_raw competency score details assessment_data)
            (\<lambda>relevance.
               score_trainings self assessment_data competency score rest
                 (recs @
                  [\<lparr>recommendation.competency_gap = competency,
                    recommendation.current_score = score,
                    training_details = details,
                    recommendation.relevance_score = relevance,
                    priority_level = get_priority_level score,
                    recommendation.expected_improvement = min 2.0 (5.0 - score),
                    recommendation.timeline = get_timeline (get_priority_level score)\<rparr>])))"

text \<open>The outer loop, over the priority areas.\<close>

fun collect_recommendations ::
  "system \<Rightarrow> (string list \<Rightarrow> string list) \<Rightarrow> py_value \<Rightarrow> (string \<times> real) list
     \<Rightarrow> recommendation list \<Rightarrow> exn + recommendation list"
where
  "collect_recommendations self set_order assessment_data [] recs = Inr recs"
| "collect_recommendations self set_order assessment_data ((competency, score) # rest) recs =
     (let potential_trainings = dict_get (competency_training_mapping self) competency [] in
      if potential_trainings = []
      then collect_recommendations self set_order assessment_data rest recs
      else
        and_then (py_get assessment_data ''current_position'' (PyStr '''')) (\<lambda>position.
        and_then (py_get assessment_data ''division'' (PyStr '''')) (\<lambda>division'.
        and_then (py_get assessment_data ''experience_level'' (PyStr '''')) (\<lambda>experience.
        and_then (filter_by_context_raw self set_order potential_trainings position division'
                    experience) (\<lambda>filtered_trainings.
        and_then (score_trainings self assessment_data competency score filtered_trainings recs)
          (\<lambda>recs.
        collect_recommendations self set_order assessment_data rest recs))))))"

text \<open>
  The dictionary both handlers return (lines 662 to 667 and 725 to 730 are the same
  text). \<open>describe\<close> is \<^verbatim>\<open>str(e)\<close>, the text of an exception. The handler reads the
  employee identifier with \<^verbatim>\<open>assessment_data.get\<close>, which raises in its turn when the
  assessment is not a dictionary; nothing catches that.
\<close>

definition fault_response ::
  "(exn \<Rightarrow> string) \<Rightarrow> exn \<Rightarrow> py_value \<Rightarrow> exn + py_value response"
where
  "fault_response describe e assessment_data =
     and_then (py_get assessment_data ''employee_id'' (PyStr ''Unknown'')) (\<lambda>employee.
     Inr \<lparr>error = Some (describe e),
          employee_id = employee,
          assessment_date = None,
          recommendations = [],
          development_path = None,
          summary =
            \<lparr>total_recommendations = 0, total_estimated_cost = 0,
             total_estimated_duration = 0\<rparr>\<rparr>)"

text \<open>The body of the \<^verbatim>\<open>try\<close> of \<^verbatim>\<open>_build_response\<close>, and the function with its handler.\<close>

definition build_response_body ::
  "string \<Rightarrow> py_value \<Rightarrow> recommendation list \<Rightarrow> exn + py_value response"
where
  "build_response_body today assessment_data recs =
     (let total_cost = sum_list (map (\<lambda>rec. cost (training_details rec)) recs);
          total_duration =
            sum_list (map (\<lambda>rec. duration_days (training_details rec)) recs)
      in
      and_then (py_get assessment_data ''employee_id'' (PyStr ''Unknown'')) (\<lambda>employee.
      let (formatted, path) =
            format_loop 1 recs
              ([], \<lparr>critical = [], high_priority = [], medium_priority = []\<rparr>)
      in Inr \<lparr>error = None,
              employee_id = employee,
              assessment_date = Some today,
              recommendations = formatted,
              development_path = Some path,
              summary =
                \<lparr>total_recommendations = int (length recs),
                 total_estimated_cost = total_cost,
                 total_estimated_duration = total_duration\<rparr>\<rparr>))"

definition build_response_raw ::
  "string \<Rightarrow> (exn \<Rightarrow> string) \<Rightarrow> py_value \<Rightarrow> recommendation list \<Rightarrow> exn + py_value response"
where
  "build_response_raw today describe assessment_data recs =
     (case build_response_body today assessment_data recs of
        Inl e \<Rightarrow> fault_response describe e assessment_data
      | Inr response \<Rightarrow> Inr response)"

text \<open>
  The body of the \<^verbatim>\<open>try\<close> of \<^verbatim>\<open>recommend_training\<close>, and the function with its
  handler. The result \<open>Inl\<close> of \<open>recommend_training_raw\<close> is an exception that reaches
  the caller.
\<close>

definition recommend_training_body ::
  "system \<Rightarrow> (string list \<Rightarrow> string list) \<Rightarrow> string \<Rightarrow> (string \<Rightarrow> real option)
     \<Rightarrow> (exn \<Rightarrow> string) \<Rightarrow> py_value \<Rightarrow> exn + py_value response"
where
  "recommend_training_body self set_order today parse_float describe assessment_data =
     and_then (identify_priority_areas_raw parse_float assessment_data) (\<lambda>priority_areas.
     and_then (collect_recommendations self set_order assessment_data priority_areas [])
       (\<lambda>recs.
     let recs = sort_key (\<lambda>x. (priority_level x, - recommendation.relevance_score x)) recs;
         top_recommendations = take 3 recs
     in build_response_raw today describe assessment_data top_recommendations))"

definition recommend_training_raw ::
  "system \<Rightarrow> (string list \<Rightarrow> string list) \<Rightarrow> string \<Rightarrow> (string \<Rightarrow> real option)
     \<Rightarrow> (exn \<Rightarrow> string) \<Rightarrow> py_value \<Rightarrow> exn + py_value response"
where
  "recommend_training_raw self set_order today parse_float describe assessment_data =
     (case recommend_training_body self set_order today parse_float describe assessment_data of
        Inl e \<Rightarrow> fault_response describe e assessment_data
      | Inr response \<Rightarrow> Inr response)"

section \<open>Definitions used in the statements\<close>

text \<open>
  The list \<^verbatim>\<open>_build_response\<close> appends to, as a function of the recommendations alone:
  recommendation number \<open>k\<close> of the list is formatted with rank \<open>i + k\<close>.
\<close>

fun format_all :: "int \<Rightarrow> recommendation list \<Rightarrow> formatted_rec list" where
  "format_all i [] = []"
| "format_all i (rec # rest) = format_rec i rec # format_all (i + 1) rest"

text \<open>A score group all of whose values are numbers, and the same group under a prefix.\<close>

definition numbers :: "(string \<times> real) list \<Rightarrow> (string \<times> score_value) list" where
  "numbers items = map (\<lambda>(competency, x). (competency, Number x)) items"

definition prefixed :: "string \<Rightarrow> (string \<times> real) list \<Rightarrow> (string \<times> real) list" where
  "prefixed pre items = map (\<lambda>(competency, x). (pre @ competency, x)) items"

text \<open>
  The resolver as the specification words it: the first record of the catalog whose
  school field contains the school name, else the first record whose school field
  contains one of the words of the school name, else the placeholder; every comparison
  on lower-cased strings.
\<close>

definition resolver_tiers :: "training list \<Rightarrow> string \<Rightarrow> training" where
  "resolver_tiers catalog school_name =
     (case find (\<lambda>r. str_in (str_lower school_name) (str_lower (school r))) catalog of
        Some r \<Rightarrow> r
      | None \<Rightarrow>
          (case find (\<lambda>r. \<exists>word \<in> set (str_split (str_lower school_name)).
                            str_in word (str_lower (school r))) catalog of
             Some r \<Rightarrow> r
           | None \<Rightarrow> generic_training school_name))"

text \<open>
  The assessment of scenario A: one core score, \<^verbatim>\<open>information_seeking = 1.2\<close>, for a
  senior manager of the IT division; the employee identifier is left open.
\<close>

definition scenario_a :: "string option \<Rightarrow> assessment" where
  "scenario_a eid =
     \<lparr>assessment.employee_id = eid,
      current_position = Some ''Manager'',
      division = Some ''it'',
      experience_level = Some ''senior'',
      core_competency_scores = Some [(''information_seeking'', Number 1.2)],
      managerial_competency_scores = Some [],
      leadership_competency_scores = Some []\<rparr>"

text \<open>A further sample assessment: six scores in two groups and no leadership group.\<close>

definition six_scores :: assessment where
  "six_scores =
     \<lparr>assessment.employee_id = Some ''EMP001'',
      current_position = Some ''Staff'',
      division = Some ''finance'',
      experience_level = Some ''junior'',
      core_competency_scores =
        Some [(''information_seeking'', Number 1.2), (''resilience'', Number 4.0),
              (''ethical_oriented'', Number 2.5)],
      managerial_competency_scores =
        Some [(''business_savvy'', Number 3.1), (''customer_focus'', Number 2.5),
              (''digital_literate'', Number 4.8)],
      leadership_competency_scores = None\<rparr>"

text \<open>
  Three assessment dictionaries with a malformed value each: a core group that is a list,
  a score that is \<^verbatim>\<open>None\<close>, and a position that is \<^verbatim>\<open>None\<close> beside a score that
  has trainings mapped to it. \<open>exn_name\<close>, the class name of an exception, stands in
  for \<^verbatim>\<open>str(e)\<close> in the examples, and \<open>no_number\<close> reads no string as a number.
\<close>

definition group_is_list :: py_value where
  "group_is_list =
     PyDict [(''employee_id'', PyStr ''EMP007''),
             (''current_position'', PyStr ''Staff''),
             (''core_competency_scores'', PyList [PyNumber 1.2])]"

definition score_is_none :: py_value where
  "score_is_none =
     PyDict [(''current_position'', PyStr ''Staff''),
             (''division'', PyStr ''hr''),
             (''experience_level'', PyStr ''mid''),
             (''core_competency_scores'',
                PyDict [(''information_seeking'', PyNumber 1.2), (''resilience'', PyNone)]),
             (''managerial_competency_scores'', PyDict [(''business_savvy'', PyNumber 3.1)])]"

definition position_is_none :: py_value where
  "position_is_none =
     PyDict [(''employee_id'', PyNumber 7),
             (''current_position'', PyNone),
             (''division'', PyStr ''it''),
             (''experience_level'', PyStr ''senior''),
             (''core_competency_scores'', PyDict [(''information_seeking'', PyNumber 1.2)])]"

definition exn_name :: "exn \<Rightarrow> string" where
  "exn_name e =
     (case e of
        AttributeError obj attribute \<Rightarrow> ''AttributeError''
      | TypeError obj \<Rightarrow> ''TypeError''
      | ValueError s \<Rightarrow> ''ValueError'')"

definition no_number :: "string \<Rightarrow> real option" where
  "no_number s = None"

text \<open>
  An assessment record as the dictionary the caller passes: the keys that are present,
  strings as strings, a score group as a dictionary, a number as a number. (A score
  that is not a number is some value \<^verbatim>\<open>float\<close> rejects.) And a response over string
  identifiers as a response over values.
\<close>

definition entry :: "string \<Rightarrow> ('a \<Rightarrow> py_value) \<Rightarrow> 'a option \<Rightarrow> (string \<times> py_value) list" where
  "entry key encode field = (case field of None \<Rightarrow> [] | Some v \<Rightarrow> [(key, encode v)])"

definition encode_score :: "score_value \<Rightarrow> py_value" where
  "encode_score v = (case v of Number x \<Rightarrow> PyNumber x | NotANumber msg \<Rightarrow> PyNone)"

definition encode_group :: "(string \<times> score_value) list \<Rightarrow> py_value" where
  "encode_group scores = PyDict (map (\<lambda>(competency, v). (competency, encode_score v)) scores)"

definition encode_assessment :: "assessment \<Rightarrow> py_value" where
  "encode_assessment a =
     PyDict
       (entry ''employee_id'' PyStr (assessment.employee_id a)
        @ entry ''current_position'' PyStr (current_position a)
        @ entry ''division'' PyStr (division a)
        @ entry ''experience_level'' PyStr (experience_level a)
        @ entry ''core_competency_scores'' encode_group (core_competency_scores a)
        @ entry ''managerial_competency_scores'' encode_group (managerial_competency_scores a)
        @ entry ''leadership_competency_scores'' encode_group (leadership_competency_scores a))"

definition encode_response :: "string response \<Rightarrow> py_value response" where
  "encode_response r =
     \<lparr>error = error r,
      employee_id = PyStr (employee_id r),
      assessment_date = assessment_date r,
      recommendations = recommendations r,
      development_path = development_path r,
      summary = summary r\<rparr>"

section \<open>The context filter\<close>

lemma set_listing_remdups: "set_listing remdups"
  by (simp add: set_listing_def)

lemma has_keyword_iff:
  "has_keyword keywords t \<longleftrightarrow> (\<exists>keyword\<in>set keywords. str_in keyword (str_lower t))"
  by (simp add: has_keyword_def list_ex_iff)

lemma filter_by_context_set_junior:
  assumes "set_listing set_order" and "str_lower experience = ''junior''"
  shows "set (filter_by_context self set_order trainings position d experience) =
         {t \<in> set trainings.
            \<not> has_keyword [''advanced'', ''strategic'', ''transformasi'', ''executive''] t}"
  using assms unfolding filter_by_context_def Let_def set_listing_def
  by auto

lemma filter_by_context_set_other:
  assumes "set_listing set_order" and "str_lower experience \<noteq> ''junior''"
  shows "set (filter_by_context self set_order trainings position d experience) = set trainings"
  using assms unfolding filter_by_context_def Let_def set_listing_def
  by auto

lemma filter_by_context_distinct:
  assumes "set_listing set_order"
  shows "distinct (filter_by_context self set_order trainings position d experience)"
  using assms unfolding filter_by_context_def Let_def set_listing_def
  by simp

text \<open>
  Claim C6. For a junior employee (the experience level compared in lower case, as the
  program does) and every candidate list, position and division, the schools returned by
  \<open>filter_by_context\<close> are exactly the candidates whose lower-cased name contains none of
  "advanced", "strategic", "transformasi", "executive": the position-based and
  division-based additions are candidates themselves, and the removal runs over the
  accumulated list. So no returned school name contains one of these keywords.
\<close>

theorem filter_by_context_junior:
  assumes "set_listing set_order" and "str_lower experience = ''junior''"
  shows "set (filter_by_context self set_order trainings position d experience) =
           {t \<in> set trainings.
              \<not> has_keyword [''advanced'', ''strategic'', ''transformasi'', ''executive''] t}
         \<and> (\<forall>t \<in> set (filter_by_context self set_order trainings position d experience).
              \<forall>keyword \<in> {''advanced'', ''strategic'', ''transformasi'', ''executive''}.
                \<not> str_in keyword (str_lower t))"
  using filter_by_context_set_junior [OF assms, of self trainings position d]
  by (auto simp: has_keyword_iff)

theorem filter_by_context_junior_witness:
  "set_listing remdups \<and> str_lower ''junior'' = ''junior''
   \<and> ''Teknologi Informasi'' \<in>
       set (filter_by_context TrainingRecommendationSystem remdups
              [''Transformasi Strategis'', ''Teknologi Informasi''] ''Staff'' ''it'' ''junior'')
   \<and> ''Transformasi Strategis'' \<notin>
       set (filter_by_context TrainingRecommendationSystem remdups
              [''Transformasi Strategis'', ''Teknologi Informasi''] ''Staff'' ''it'' ''junior'')"
proof -
  have h1: "set_listing remdups"
    by (rule set_listing_remdups)
  have h2: "str_lower ''junior'' = ''junior''"
    by code_simp
  have k: "has_keyword [''advanced'', ''strategic'', ''transformasi'', ''executive'']
             ''Transformasi Strategis''"
    by code_simp
  have n: "\<not> has_keyword [''advanced'', ''strategic'', ''transformasi'', ''executive'']
             ''Teknologi Informasi''"
    by code_simp
  have "set (filter_by_context TrainingRecommendationSystem remdups
               [''Transformasi Strategis'', ''Teknologi Informasi''] ''Staff'' ''it'' ''junior'') =
        {t \<in> set [''Transformasi Strategis'', ''Teknologi Informasi''].
           \<not> has_keyword [''advanced'', ''strategic'', ''transformasi'', ''executive''] t}"
    using filter_by_context_junior [OF h1 h2] by (rule conjunct1)
  with k n have
    "''Teknologi Informasi'' \<in>
       set (filter_by_context TrainingRecommendationSystem remdups
              [''Transformasi Strategis'', ''Teknologi Informasi''] ''Staff'' ''it'' ''junior'')
     \<and> ''Transformasi Strategis'' \<notin>
       set (filter_by_context TrainingRecommendationSystem remdups
              [''Transformasi Strategis'', ''Teknologi Informasi''] ''Staff'' ''it'' ''junior'')"
    by simp
  with h1 h2 show ?thesis
    by (intro conjI) (rule h1, rule h2, simp_all only: simp_thms)
qed

text \<open>
  Claim C10. For every candidate list, position, division and experience level, every
  school \<open>filter_by_context\<close> returns is one of the candidates it was given, and no school
  is returned twice.
\<close>

theorem filter_by_context_subset:
  assumes "set_listing set_order"
  shows "set (filter_by_context self set_order trainings position d experience) \<subseteq> set trainings
         \<and> distinct (filter_by_context self set_order trainings position d experience)"
proof (cases "str_lower experience = ''junior''")
  case True
  with assms show ?thesis
    by (auto simp: filter_by_context_set_junior filter_by_context_distinct)
next
  case False
  with assms show ?thesis
    by (simp add: filter_by_context_set_other filter_by_context_distinct)
qed

theorem filter_by_context_subset_witness:
  "set_listing remdups
   \<and> set (filter_by_context TrainingRecommendationSystem remdups
            [''Teknologi Informasi'', ''Strategi SDM''] ''Manager'' ''it'' ''senior'')
       \<subseteq> set [''Teknologi Informasi'', ''Strategi SDM'']
   \<and> distinct (filter_by_context TrainingRecommendationSystem remdups
                 [''Teknologi Informasi'', ''Strategi SDM''] ''Manager'' ''it'' ''senior'')"
proof -
  have h: "set_listing remdups"
    by (rule set_listing_remdups)
  from filter_by_context_subset [OF h] show ?thesis
    using h by (intro conjI) blast+
qed

section \<open>Priority levels\<close>

text \<open>
  Claim C3. \<open>get_priority_level\<close> is defined on every score and returns 1 below 2.0,
  2 from 2.0 up to but not including 3.0, 3 from 3.0 up to but not including 3.5, and 4
  from 3.5 on; the bands are disjoint and cover the whole axis, and each of the
  boundary scores 2.0, 3.0 and 3.5 falls in the higher band.
\<close>

theorem get_priority_level_bands:
  "(get_priority_level score = 1 \<longleftrightarrow> score < 2.0)
   \<and> (get_priority_level score = 2 \<longleftrightarrow> 2.0 \<le> score \<and> score < 3.0)
   \<and> (get_priority_level score = 3 \<longleftrightarrow> 3.0 \<le> score \<and> score < 3.5)
   \<and> (get_priority_level score = 4 \<longleftrightarrow> 3.5 \<le> score)
   \<and> get_priority_level score \<in> {1, 2, 3, 4}
   \<and> get_priority_level 2.0 = 2 \<and> get_priority_level 3.0 = 3 \<and> get_priority_level 3.5 = 4"
  by (simp add: get_priority_level_def)

theorem get_priority_level_bands_witness:
  "get_priority_level 1.2 = 1 \<and> get_priority_level 2.5 = 2
   \<and> get_priority_level 3.2 = 3 \<and> get_priority_level 5.0 = 4"
  using get_priority_level_bands [of "1.2"] get_priority_level_bands [of "2.5"]
    get_priority_level_bands [of "3.2"] get_priority_level_bands [of "5.0"]
  by simp

section \<open>The gap analysis\<close>

lemma dict_set_fresh: "k \<notin> fst ` set d \<Longrightarrow> dict_set d k v = d @ [(k, v)]"
  by (induction d) auto

lemma add_scores_numbers:
  "distinct (map fst items) \<Longrightarrow> (\<forall>c \<in> fst ` set items. pre @ c \<notin> fst ` set d) \<Longrightarrow>
   add_scores pre (numbers items) d = Inr (d @ prefixed pre items)"
proof (induction items arbitrary: d)
  case Nil
  then show ?case by (simp add: numbers_def prefixed_def)
next
  case (Cons item items)
  obtain c x where item: "item = (c, x)" by (cases item)
  from Cons.prems have fresh: "pre @ c \<notin> fst ` set d" by (simp add: item)
  have step: "dict_set d (pre @ c) x = d @ [(pre @ c, x)]"
    using fresh by (rule dict_set_fresh)
  have rest: "\<forall>c' \<in> fst ` set items. pre @ c' \<notin> fst ` set (d @ [(pre @ c, x)])"
    using Cons.prems by (auto simp: item)
  have "add_scores pre (numbers items) (d @ [(pre @ c, x)]) =
        Inr ((d @ [(pre @ c, x)]) @ prefixed pre items)"
    using Cons.prems rest by (intro Cons.IH) simp_all
  then show ?case
    by (simp add: item numbers_def prefixed_def py_float_def step)
qed

lemma fresh_prefixed: "a \<noteq> b \<Longrightarrow> a # rest \<notin> fst ` set (prefixed (b # q) items)"
  by (auto simp: prefixed_def)

text \<open>
  Claim C2. For an assessment whose score groups are dictionaries (their keys distinct)
  of numbers, an absent group counting as empty, \<open>identify_priority_areas\<close> returns the
  first five entries of the three groups, prefixed with "core_", "managerial_" and
  "leadership_", merged in this order and sorted by ascending score, or all of them when
  there are fewer than five. With at least five scores the result has exactly five
  entries, and its scores are never decreasing.
\<close>

theorem identify_priority_areas_lowest_five:
  assumes "get_or (core_competency_scores a) [] = numbers cs"
    and "get_or (managerial_competency_scores a) [] = numbers ms"
    and "get_or (leadership_competency_scores a) [] = numbers ls"
    and "distinct (map fst cs)" and "distinct (map fst ms)" and "distinct (map fst ls)"
  shows "\<exists>areas. identify_priority_areas a = Inr areas
           \<and> areas = take 5 (sort_key snd
                (prefixed ''core_'' cs @ prefixed ''managerial_'' ms @ prefixed ''leadership_'' ls))
           \<and> length areas = min 5 (length cs + length ms + length ls)
           \<and> (5 \<le> length cs + length ms + length ls \<longrightarrow> length areas = 5)
           \<and> sorted (map snd areas)"
proof -
  have 1: "add_scores ''core_'' (numbers cs) [] = Inr (prefixed ''core_'' cs)"
    using add_scores_numbers [of cs "''core_''" "[]"] assms(4) by simp
  have 2: "add_scores ''managerial_'' (numbers ms) (prefixed ''core_'' cs) =
           Inr (prefixed ''core_'' cs @ prefixed ''managerial_'' ms)"
    using assms(5) by (intro add_scores_numbers) (simp_all add: fresh_prefixed)
  have 3: "add_scores ''leadership_'' (numbers ls)
             (prefixed ''core_'' cs @ prefixed ''managerial_'' ms) =
           Inr ((prefixed ''core_'' cs @ prefixed ''managerial_'' ms) @ prefixed ''leadership_'' ls)"
    using assms(6) by (intro add_scores_numbers) (simp_all add: image_Un fresh_prefixed)
  have s: "sorted (map snd (take 5 (sort_key snd
              (prefixed ''core_'' cs @ prefixed ''managerial_'' ms @ prefixed ''leadership_'' ls))))"
    by (simp add: take_map [symmetric] sorted_wrt_take)
  have l: "length (prefixed ''core_'' cs @ prefixed ''managerial_'' ms @ prefixed ''leadership_'' ls)
           = length cs + length ms + length ls"
    by (simp add: prefixed_def)
  show ?thesis
    using s l by (simp add: identify_priority_areas_def assms(1-3) 1 2 3 min_def)
qed

theorem identify_priority_areas_lowest_five_witness:
  "get_or (core_competency_scores six_scores) [] =
     numbers [(''information_seeking'', 1.2), (''resilience'', 4.0), (''ethical_oriented'', 2.5)]
   \<and> get_or (managerial_competency_scores six_scores) [] =
     numbers [(''business_savvy'', 3.1), (''customer_focus'', 2.5), (''digital_literate'', 4.8)]
   \<and> get_or (leadership_competency_scores six_scores) [] = numbers []
   \<and> distinct (map fst [(''information_seeking'', 1.2::real), (''resilience'', 4.0),
                          (''ethical_oriented'', 2.5)])
   \<and> distinct (map fst [(''business_savvy'', 3.1::real), (''customer_focus'', 2.5),
                          (''digital_literate'', 4.8)])
   \<and> distinct (map fst ([] :: (string \<times> real) list))
   \<and> identify_priority_areas six_scores =
       Inr [(''core_information_seeking'', 1.2), (''core_ethical_oriented'', 2.5),
            (''managerial_customer_focus'', 2.5), (''managerial_business_savvy'', 3.1),
            (''core_resilience'', 4.0)]"
proof -
  have c: "get_or (core_competency_scores six_scores) [] =
     numbers [(''information_seeking'', 1.2), (''resilience'', 4.0), (''ethical_oriented'', 2.5)]"
    by (simp add: six_scores_def get_or_def numbers_def)
  have m: "get_or (managerial_competency_scores six_scores) [] =
     numbers [(''business_savvy'', 3.1), (''customer_focus'', 2.5), (''digital_literate'', 4.8)]"
    by (simp add: six_scores_def get_or_def numbers_def)
  have l: "get_or (leadership_competency_scores six_scores) [] = numbers []"
    by (simp add: six_scores_def get_or_def numbers_def)
  have dc: "distinct (map fst [(''information_seeking'', 1.2::real), (''resilience'', 4.0),
                               (''ethical_oriented'', 2.5)])"
    by simp
  have dm: "distinct (map fst [(''business_savvy'', 3.1::real), (''customer_focus'', 2.5),
                               (''digital_literate'', 4.8)])"
    by simp
  have dl: "distinct (map fst ([] :: (string \<times> real) list))"
    by simp
  have "identify_priority_areas six_scores =
        Inr (take 5 (sort_key snd
          (prefixed ''core_''
             [(''information_seeking'', 1.2), (''resilience'', 4.0), (''ethical_oriented'', 2.5)]
           @ prefixed ''managerial_''
             [(''business_savvy'', 3.1), (''customer_focus'', 2.5), (''digital_literate'', 4.8)]
           @ prefixed ''leadership_'' [])))"
    using identify_priority_areas_lowest_five [OF c m l dc dm dl] by blast
  then have r: "identify_priority_areas six_scores =
       Inr [(''core_information_seeking'', 1.2), (''core_ethical_oriented'', 2.5),
            (''managerial_customer_focus'', 2.5), (''managerial_business_savvy'', 3.1),
            (''core_resilience'', 4.0)]"
    by (simp add: prefixed_def)
  show ?thesis
    by (intro conjI) (rule c m l dc dm dl r)+
qed

section \<open>The relevance scorer\<close>

lemma str_lower_Nil: "str_lower [] = []"
  by (simp add: str_lower_def)

text \<open>
  Claim C4. For every current score, training record and employee context,
  \<open>calculate_relevance_score\<close> is (5.0 - current score) times the position, division
  and experience multipliers, clamped to the interval from 0.1 to 10.0. The position
  multiplier is 1.5 if and only if the lower-cased position contains "manager" or
  "supervisor" and the lower-cased training name contains a management keyword; the
  division multiplier is 1.3 if and only if the lower-cased target division equals the
  lower-cased division of the employee or is "all"; the experience multiplier is 1.2 if
  and only if the lower-cased experience level is "junior" and the training name has no
  advanced keyword, or it is "senior" and the name has one. Every other multiplier is
  1.0, and the result always lies between 0.1 and 10.0.
\<close>

theorem calculate_relevance_score_formula:
  "calculate_relevance_score competency score details a =
     max 0.1 (min 10.0 ((5.0 - score)
       * (if (str_in ''manager'' (str_lower (get_or (current_position a) ''''))
              \<or> str_in ''supervisor'' (str_lower (get_or (current_position a) '''')))
             \<and> (\<exists>keyword \<in> {''strategi'', ''leadership'', ''management'', ''manajemen'',
                               ''strategic'', ''executive''}.
                  str_in keyword (str_lower (training_name details)))
          then 1.5 else 1.0)
       * (if str_lower (target_division details) = str_lower (get_or (division a) '''')
             \<or> str_lower (target_division details) = ''all''
          then 1.3 else 1.0)
       * (if (str_lower (get_or (experience_level a) '''') = ''junior''
              \<and> \<not> (\<exists>keyword \<in> {''advanced'', ''strategic'', ''transformasi'', ''leadership'',
                                   ''executive''}.
                     str_in keyword (str_lower (training_name details))))
             \<or> (str_lower (get_or (experience_level a) '''') = ''senior''
                 \<and> (\<exists>keyword \<in> {''advanced'', ''strategic'', ''transformasi'', ''leadership'',
                                    ''executive''}.
                       str_in keyword (str_lower (training_name details))))
          then 1.2 else 1.0)))
   \<and> 0.1 \<le> calculate_relevance_score competency score details a
   \<and> calculate_relevance_score competency score details a \<le> 10.0"
proof -
  have m: "is_management_training (training_name details) \<longleftrightarrow>
           (\<exists>keyword \<in> {''strategi'', ''leadership'', ''management'', ''manajemen'',
                          ''strategic'', ''executive''}.
              str_in keyword (str_lower (training_name details)))"
    by (cases "training_name details = []")
      (simp_all add: is_management_training_def str_lower_Nil)
  have v: "is_advanced_training (training_name details) \<longleftrightarrow>
           (\<exists>keyword \<in> {''advanced'', ''strategic'', ''transformasi'', ''leadership'',
                          ''executive''}.
              str_in keyword (str_lower (training_name details)))"
    by (cases "training_name details = []")
      (simp_all add: is_advanced_training_def str_lower_Nil)
  have shape: "b * (if P then if M then 1.5 else 1.0 else 1.0) * (if D then 1.3 else 1.0)
         * (if J then if \<not> A then 1.2 else 1.0 else if S then if A then 1.2 else 1.0 else 1.0)
       = b * (if P \<and> M then 1.5 else 1.0) * (if D then 1.3 else 1.0)
         * (if (J \<and> \<not> A) \<or> (S \<and> A) then 1.2 else 1.0)"
    if "\<not> (J \<and> S)" for P M D J S A and b :: real
    using that by (cases J; cases S; cases A; cases P; cases M) simp_all
  have js: "\<not> (str_lower (get_or (experience_level a) '''') = ''junior''
              \<and> str_lower (get_or (experience_level a) '''') = ''senior'')"
    by auto
  have f: "calculate_relevance_score competency score details a =
     max 0.1 (min 10.0 ((5.0 - score)
       * (if (str_in ''manager'' (str_lower (get_or (current_position a) ''''))
              \<or> str_in ''supervisor'' (str_lower (get_or (current_position a) '''')))
             \<and> is_management_training (training_name details)
          then 1.5 else 1.0)
       * (if str_lower (target_division details) = str_lower (get_or (division a) '''')
             \<or> str_lower (target_division details) = ''all''
          then 1.3 else 1.0)
       * (if (str_lower (get_or (experience_level a) '''') = ''junior''
              \<and> \<not> is_advanced_training (training_name details))
             \<or> (str_lower (get_or (experience_level a) '''') = ''senior''
                 \<and> is_advanced_training (training_name details))
          then 1.2 else 1.0)))"
    unfolding calculate_relevance_score_def Let_def
    by (subst shape [OF js]) (rule refl)
  have r: "0.1 \<le> calculate_relevance_score competency score details a
           \<and> calculate_relevance_score competency score details a \<le> 10.0"
    unfolding calculate_relevance_score_def Let_def by (simp add: max_def min_def)
  show ?thesis
    using r unfolding f m v by (rule conjI [OF refl])
qed

section \<open>The training resolver\<close>

lemma partial_match_find:
  "partial_match s catalog =
     find (\<lambda>r. \<exists>word \<in> set (str_split (str_lower s)). str_in word (str_lower (school r))) catalog"
  by (induction catalog) (simp_all add: Let_def list_ex_iff)

lemma filter_find:
  "(case filter P xs of first # _ \<Rightarrow> f first | [] \<Rightarrow> g) =
   (case find P xs of Some first \<Rightarrow> f first | None \<Rightarrow> g)"
  by (induction xs) simp_all

lemma get_training_details_tiers:
  "get_training_details self s = Some (resolver_tiers (training_database self) s)"
  unfolding get_training_details_def resolver_tiers_def Let_def partial_match_find filter_find
  by (simp split: option.splits)

lemma resolve_nonexistent:
  "get_training_details TrainingRecommendationSystem ''Nonexistent School XYZ'' =
     Some (generic_training ''Nonexistent School XYZ'')"
  by code_simp

lemma generic_nonexistent_id:
  "training_id (generic_training ''Nonexistent School XYZ'') = ''GENERIC_NONEXISTENT_SCHOOL_XYZ''"
  by code_simp

lemma resolve_empty_catalog:
  "get_training_details (self\<lparr>training_database := []\<rparr>) s = Some (generic_training s)"
  by (simp add: get_training_details_def)

text \<open>
  Claim C5. For every school name (the empty one included) and every catalog,
  \<open>get_training_details\<close> returns a record: the first record of the catalog whose
  lower-cased school field contains the lower-cased school name, else the first record
  whose lower-cased school field contains one of the whitespace-delimited words of the
  lower-cased school name, else the synthesized placeholder. For "Nonexistent School XYZ"
  the result, against the catalog of the program as against an empty catalog, has the
  identifier "GENERIC_NONEXISTENT_SCHOOL_XYZ", a duration of 3 days and a cost of 5000000.
\<close>

theorem get_training_details_total:
  "get_training_details self school_name =
     Some (resolver_tiers (training_database self) school_name)
   \<and> (\<exists>r. get_training_details TrainingRecommendationSystem ''Nonexistent School XYZ'' = Some r
          \<and> training_id r = ''GENERIC_NONEXISTENT_SCHOOL_XYZ''
          \<and> duration_days r = 3 \<and> cost r = 5000000)
   \<and> (\<exists>r. get_training_details (self\<lparr>training_database := []\<rparr>) ''Nonexistent School XYZ''
            = Some r
          \<and> training_id r = ''GENERIC_NONEXISTENT_SCHOOL_XYZ''
          \<and> duration_days r = 3 \<and> cost r = 5000000)"
proof -
  have fields: "duration_days (generic_training ''Nonexistent School XYZ'') = 3
                \<and> cost (generic_training ''Nonexistent School XYZ'') = 5000000"
    by (simp add: generic_training_def)
  have tiers: "get_training_details self school_name =
                 Some (resolver_tiers (training_database self) school_name)"
    by (rule get_training_details_tiers)
  have program: "\<exists>r. get_training_details TrainingRecommendationSystem
                        ''Nonexistent School XYZ'' = Some r
                    \<and> training_id r = ''GENERIC_NONEXISTENT_SCHOOL_XYZ''
                    \<and> duration_days r = 3 \<and> cost r = 5000000"
    using resolve_nonexistent generic_nonexistent_id fields by blast
  have empty: "\<exists>r. get_training_details (self\<lparr>training_database := []\<rparr>)
                      ''Nonexistent School XYZ'' = Some r
                  \<and> training_id r = ''GENERIC_NONEXISTENT_SCHOOL_XYZ''
                  \<and> duration_days r = 3 \<and> cost r = 5000000"
    using resolve_empty_catalog [of self "''Nonexistent School XYZ''"]
      generic_nonexistent_id fields
    by blast
  show ?thesis
    by (intro conjI) (rule tiers, rule program, rule empty)
qed

section \<open>The response\<close>

lemma fst_format_loop:
  "fst (format_loop i recs (formatted, path)) = formatted @ format_all i recs"
  by (induction recs arbitrary: i formatted path) simp_all

lemma length_format_all: "length (format_all i recs) = length recs"
  by (induction recs arbitrary: i) simp_all

lemma trainings_format_all:
  "map recommended_training (format_all i recs) = map training_details recs"
  by (induction recs arbitrary: i) (simp_all add: format_rec_def)

lemma recommendations_build_response:
  "recommendations (build_response today a recs) = format_all 1 recs"
  by (simp add: build_response_def Let_def case_prod_beta fst_format_loop)

lemma summary_build_response:
  "summary (build_response today a recs) =
     \<lparr>total_recommendations = int (length recs),
      total_estimated_cost = sum_list (map (\<lambda>rec. cost (training_details rec)) recs),
      total_estimated_duration = sum_list (map (\<lambda>rec. duration_days (training_details rec)) recs)\<rparr>"
  by (simp add: build_response_def Let_def case_prod_beta)

lemma build_response_summary_ok:
  "total_recommendations (summary (build_response today a recs)) =
     int (length (recommendations (build_response today a recs)))
   \<and> total_estimated_cost (summary (build_response today a recs)) =
     sum_list (map (\<lambda>f. cost (recommended_training f)) (recommendations (build_response today a recs)))
   \<and> total_estimated_duration (summary (build_response today a recs)) =
     sum_list (map (\<lambda>f. duration_days (recommended_training f))
       (recommendations (build_response today a recs)))"
proof -
  have c: "map (\<lambda>f. cost (recommended_training f)) (format_all 1 recs) =
           map (\<lambda>rec. cost (training_details rec)) recs"
    using arg_cong [OF trainings_format_all [of 1 recs], of "map cost"] by (simp add: comp_def)
  have d: "map (\<lambda>f. duration_days (recommended_training f)) (format_all 1 recs) =
           map (\<lambda>rec. duration_days (training_details rec)) recs"
    using arg_cong [OF trainings_format_all [of 1 recs], of "map duration_days"]
    by (simp add: comp_def)
  show ?thesis
    by (simp add: recommendations_build_response summary_build_response length_format_all c d)
qed

text \<open>
  Claim C1. For every assessment, the response of \<open>recommend_training\<close> (the regular
  one and the error response alike) holds at most three recommendations, and in its
  summary \<open>total_recommendations\<close> is the length of the recommendation list,
  \<open>total_estimated_cost\<close> is the sum of the costs of the recommended trainings, and
  \<open>total_estimated_duration\<close> is the sum of their durations in days.
\<close>

theorem recommend_training_summary:
  "(let r = recommend_training self set_order today a in
      length (recommendations r) \<le> 3
      \<and> total_recommendations (summary r) = int (length (recommendations r))
      \<and> total_estimated_cost (summary r) =
          sum_list (map (\<lambda>f. cost (recommended_training f)) (recommendations r))
      \<and> total_estimated_duration (summary r) =
          sum_list (map (\<lambda>f. duration_days (recommended_training f)) (recommendations r)))"
proof (cases "identify_priority_areas a")
  case (Inl e)
  then show ?thesis
    by (simp add: recommend_training_def error_response_def)
next
  case (Inr areas)
  then show ?thesis
    using build_response_summary_ok
    by (simp add: recommend_training_def Let_def recommendations_build_response length_format_all)
qed

section \<open>The date of the response\<close>

lemma build_response_date:
  "build_response d2 a recs = (build_response d1 a recs)\<lparr>assessment_date := Some d2\<rparr>"
  by (simp add: build_response_def Let_def case_prod_beta)

lemma recommend_training_date:
  "identify_priority_areas a = Inr areas \<Longrightarrow>
   assessment_date (recommend_training self set_order today a) = Some today"
  by (simp add: recommend_training_def Let_def build_response_def case_prod_beta)

lemma identify_scenario_a:
  "identify_priority_areas (scenario_a eid) = Inr [(''core_information_seeking'', 1.2)]"
  by (simp add: identify_priority_areas_def scenario_a_def get_or_def py_float_def)

text \<open>
  Claim C7, as amended. The response of \<open>recommend_training\<close> depends on the assessment,
  the catalog, the iteration order of sets in the running interpreter and the date of
  the call, and on the date only through \<open>assessment_date\<close>: for the same assessment,
  catalog and set order, the response of a call on date \<open>d2\<close> is the response of a call
  on date \<open>d1\<close> with \<open>d2\<close> as its \<open>assessment_date\<close> (the error response has no date and is
  the same on both). Two calls on the same date return the same response, field by field.
\<close>

theorem recommend_training_date_only:
  "recommend_training self set_order d2 a =
     (recommend_training self set_order d1 a)
       \<lparr>assessment_date :=
          map_option (\<lambda>_. d2) (assessment_date (recommend_training self set_order d1 a))\<rparr>"
proof (cases "identify_priority_areas a")
  case (Inl e)
  then show ?thesis
    by (simp add: recommend_training_def error_response_def)
next
  case (Inr areas)
  then show ?thesis
    by (simp add: recommend_training_def Let_def build_response_def case_prod_beta)
qed

text \<open>
  Claim C7 as stated, every field equal for identical input, fails: the same assessment
  of scenario A, against the same catalog and set order, gets different responses on
  two different days.
\<close>

theorem recommend_training_date_counterexample:
  "recommend_training TrainingRecommendationSystem remdups ''2024-01-01''
     (scenario_a (Some ''EMP001'')) \<noteq>
   recommend_training TrainingRecommendationSystem remdups ''2024-01-02''
     (scenario_a (Some ''EMP001''))"
proof
  assume "recommend_training TrainingRecommendationSystem remdups ''2024-01-01''
            (scenario_a (Some ''EMP001'')) =
          recommend_training TrainingRecommendationSystem remdups ''2024-01-02''
            (scenario_a (Some ''EMP001''))"
  then have "assessment_date (recommend_training TrainingRecommendationSystem remdups
               ''2024-01-01'' (scenario_a (Some ''EMP001''))) =
             assessment_date (recommend_training TrainingRecommendationSystem remdups
               ''2024-01-02'' (scenario_a (Some ''EMP001'')))"
    by (rule arg_cong)
  then have "Some ''2024-01-01'' = Some ''2024-01-02''"
    by (simp only: recommend_training_date [OF identify_scenario_a])
  then show False
    by simp
qed

section \<open>Scenario A\<close>

lemma recommendations_for_gap:
  "rec \<in> set (recommendations_for self set_order a area) \<Longrightarrow>
   recommendation.competency_gap rec = fst area"
  by (auto simp: recommendations_for_def Let_def get_training_details_tiers split: if_splits)

lemma concat_singletons: "concat (map (\<lambda>x. [f x]) xs) = map f xs"
  by (induction xs) simp_all

lemma recommendations_for_length:
  assumes "dict_get (competency_training_mapping self) (fst area) [] = ts" and "ts \<noteq> []"
  shows "length (recommendations_for self set_order a area) =
         length (filter_by_context self set_order ts
                   (get_or (current_position a) '''') (get_or (division a) '''')
                   (get_or (experience_level a) ''''))"
  using assms
  by (simp add: recommendations_for_def Let_def get_training_details_tiers concat_singletons)

lemma scenario_a_schools:
  "dict_get (competency_training_mapping TrainingRecommendationSystem)
     ''core_information_seeking'' [] = [''Teknologi Informasi'', ''Strategi SDM'']"
  by code_simp

lemma senior_not_junior: "str_lower ''senior'' \<noteq> ''junior''"
  by code_simp

lemma recommendations_scenario_a:
  "recommendations (recommend_training self set_order today (scenario_a eid)) =
     format_all 1 (take 3
       (sort_key (\<lambda>x. (priority_level x, - recommendation.relevance_score x))
          (recommendations_for self set_order (scenario_a eid)
             (''core_information_seeking'', 1.2))))"
  by (simp add: recommend_training_def identify_scenario_a Let_def recommendations_build_response)

lemma nonempty_of_set: "set xs = set (y # ys) \<Longrightarrow> xs \<noteq> []"
  by auto

lemma nonempty_of_length: "length xs = length ys \<Longrightarrow> ys \<noteq> [] \<Longrightarrow> xs \<noteq> []"
  by auto

lemma top_of_sorted:
  assumes "xs \<noteq> []"
  shows "\<exists>top rest. take 3 (sort_key f xs) = top # rest \<and> top \<in> set xs"
proof -
  from assms have "sort_key f xs \<noteq> []"
    by (metis length_sort length_0_conv)
  then obtain top rest where s: "sort_key f xs = top # rest"
    by (cases "sort_key f xs") auto
  then have "top \<in> set (sort_key f xs)"
    by simp
  then have "top \<in> set xs"
    by simp
  with s show ?thesis
    by (simp add: numeral_3_eq_3)
qed

lemma scenario_a_context:
  "get_or (current_position (scenario_a eid)) '''' = ''Manager''
   \<and> get_or (division (scenario_a eid)) '''' = ''it''
   \<and> get_or (experience_level (scenario_a eid)) '''' = ''senior''"
  by (simp add: scenario_a_def get_or_def)

lemma scenario_a_recommendations_nonempty:
  assumes "set_listing set_order"
  shows "recommendations_for TrainingRecommendationSystem set_order (scenario_a eid)
           (''core_information_seeking'', 1.2) \<noteq> []"
proof -
  have "set (filter_by_context TrainingRecommendationSystem set_order
               [''Teknologi Informasi'', ''Strategi SDM''] ''Manager'' ''it'' ''senior'') =
        set [''Teknologi Informasi'', ''Strategi SDM'']"
    using assms senior_not_junior by (rule filter_by_context_set_other)
  then have ne: "filter_by_context TrainingRecommendationSystem set_order
               [''Teknologi Informasi'', ''Strategi SDM''] ''Manager'' ''it'' ''senior'' \<noteq> []"
    by (rule nonempty_of_set)
  have schools: "dict_get (competency_training_mapping TrainingRecommendationSystem)
      (fst (''core_information_seeking'', 1.2::real)) [] =
      [''Teknologi Informasi'', ''Strategi SDM'']"
    by (simp only: fst_conv scenario_a_schools)
  have two: "[''Teknologi Informasi'', ''Strategi SDM''] \<noteq> []"
    by (rule list.distinct(2))
  have "length (recommendations_for TrainingRecommendationSystem set_order (scenario_a eid)
                  (''core_information_seeking'', 1.2)) =
        length (filter_by_context TrainingRecommendationSystem set_order
                  [''Teknologi Informasi'', ''Strategi SDM''] ''Manager'' ''it'' ''senior'')"
    using recommendations_for_length [OF schools two, of set_order "scenario_a eid"]
    by (simp only: scenario_a_context)
  then show ?thesis
    using ne by (rule nonempty_of_length)
qed

text \<open>
  Claim C9. For the assessment of scenario A (a single core score,
  \<^verbatim>\<open>information_seeking = 1.2\<close>, division "it", position "Manager", experience "senior",
  empty managerial and leadership groups), \<open>identify_priority_areas\<close> returns exactly the
  pair ("core_information_seeking", 1.2), and the response of \<open>recommend_training\<close>
  against the catalog of the program has a first recommendation, whose \<open>priority\<close> is 1
  and whose \<open>competency_gap\<close> is "core_information_seeking", whatever the employee
  identifier, the date and the iteration order of sets.
\<close>

theorem scenario_a_top_recommendation:
  assumes "set_listing set_order"
  shows "identify_priority_areas (scenario_a eid) = Inr [(''core_information_seeking'', 1.2)]
         \<and> (\<exists>top rest.
              recommendations (recommend_training TrainingRecommendationSystem set_order today
                (scenario_a eid)) = top # rest
              \<and> priority top = 1
              \<and> formatted_rec.competency_gap top = ''core_information_seeking'')"
proof -
  obtain top rest where
    tr: "take 3 (sort_key (\<lambda>x. (priority_level x, - recommendation.relevance_score x))
           (recommendations_for TrainingRecommendationSystem set_order (scenario_a eid)
              (''core_information_seeking'', 1.2))) = top # rest"
    and mem: "top \<in> set (recommendations_for TrainingRecommendationSystem set_order
                (scenario_a eid) (''core_information_seeking'', 1.2))"
    using top_of_sorted [OF scenario_a_recommendations_nonempty [OF assms]] by blast
  have gap: "recommendation.competency_gap top = ''core_information_seeking''"
    using recommendations_for_gap [OF mem] by (simp only: fst_conv)
  have first: "recommendations (recommend_training TrainingRecommendationSystem set_order today
          (scenario_a eid)) = format_rec 1 top # format_all (1 + 1) rest"
    by (simp only: recommendations_scenario_a tr format_all.simps)
  have fields: "priority (format_rec 1 top) = 1
      \<and> formatted_rec.competency_gap (format_rec 1 top) = ''core_information_seeking''"
    by (simp add: format_rec_def gap)
  from first fields have "\<exists>top rest.
      recommendations (recommend_training TrainingRecommendationSystem set_order today
        (scenario_a eid)) = top # rest
      \<and> priority top = 1
      \<and> formatted_rec.competency_gap top = ''core_information_seeking''"
    by (intro exI [of _ "format_rec 1 top"] exI [of _ "format_all (1 + 1) rest"]) simp
  with identify_scenario_a show ?thesis
    by (rule conjI)
qed

theorem scenario_a_top_recommendation_witness:
  "set_listing remdups
   \<and> identify_priority_areas (scenario_a None) = Inr [(''core_information_seeking'', 1.2)]
   \<and> (\<exists>top rest.
        recommendations (recommend_training TrainingRecommendationSystem remdups ''2024-01-01''
          (scenario_a None)) = top # rest
        \<and> priority top = 1
        \<and> formatted_rec.competency_gap top = ''core_information_seeking'')"
proof -
  have h: "set_listing remdups"
    by (rule set_listing_remdups)
  show ?thesis
    using h scenario_a_top_recommendation [OF h, of None "''2024-01-01''"] by (rule conjI)
qed

section \<open>The two embeddings agree\<close>

text \<open>
  On an assessment whose values have the expected types, the functions on unchecked
  values compute what the functions on the assessment record compute.
\<close>

lemma dict_get_entry:
  "dict_get (entry key encode field @ rest) key' dflt =
     (if key = key'
      then (case field of Some v \<Rightarrow> encode v | None \<Rightarrow> dict_get rest key' dflt)
      else dict_get rest key' dflt)"
  by (cases field) (simp_all add: entry_def dict_get_def)

lemma dict_get_last_entry:
  "dict_get (entry key encode field) key' dflt =
     (if key = key' then (case field of Some v \<Rightarrow> encode v | None \<Rightarrow> dflt) else dflt)"
  by (cases field) (simp_all add: entry_def dict_get_def)

lemma get_employee_id:
  "py_get (encode_assessment a) ''employee_id'' dflt =
     Inr (case assessment.employee_id a of Some v \<Rightarrow> PyStr v | None \<Rightarrow> dflt)"
  by (simp add: encode_assessment_def py_get_def dict_get_entry dict_get_last_entry
        cong: option.case_cong)

lemma get_current_position:
  "py_get (encode_assessment a) ''current_position'' dflt =
     Inr (case current_position a of Some v \<Rightarrow> PyStr v | None \<Rightarrow> dflt)"
  by (simp add: encode_assessment_def py_get_def dict_get_entry dict_get_last_entry
        cong: option.case_cong)

lemma get_division:
  "py_get (encode_assessment a) ''division'' dflt =
     Inr (case division a of Some v \<Rightarrow> PyStr v | None \<Rightarrow> dflt)"
  by (simp add: encode_assessment_def py_get_def dict_get_entry dict_get_last_entry
        cong: option.case_cong)

lemma get_experience_level:
  "py_get (encode_assessment a) ''experience_level'' dflt =
     Inr (case experience_level a of Some v \<Rightarrow> PyStr v | None \<Rightarrow> dflt)"
  by (simp add: encode_assessment_def py_get_def dict_get_entry dict_get_last_entry
        cong: option.case_cong)

lemma get_core:
  "py_get (encode_assessment a) ''core_competency_scores'' dflt =
     Inr (case core_competency_scores a of Some v \<Rightarrow> encode_group v | None \<Rightarrow> dflt)"
  by (simp add: encode_assessment_def py_get_def dict_get_entry dict_get_last_entry
        cong: option.case_cong)

lemma get_managerial:
  "py_get (encode_assessment a) ''managerial_competency_scores'' dflt =
     Inr (case managerial_competency_scores a of Some v \<Rightarrow> encode_group v | None \<Rightarrow> dflt)"
  by (simp add: encode_assessment_def py_get_def dict_get_entry dict_get_last_entry
        cong: option.case_cong)

lemma get_leadership:
  "py_get (encode_assessment a) ''leadership_competency_scores'' dflt =
     Inr (case leadership_competency_scores a of Some v \<Rightarrow> encode_group v | None \<Rightarrow> dflt)"
  by (simp add: encode_assessment_def py_get_def dict_get_entry dict_get_last_entry
        cong: option.case_cong)

lemma items_group:
  "and_then (py_items (case scores of Some v \<Rightarrow> encode_group v | None \<Rightarrow> PyDict [])) f =
     f (map (\<lambda>(competency, v). (competency, encode_score v)) (get_or scores []))"
  by (cases scores) (simp_all add: and_then_def py_items_def encode_group_def get_or_def)

lemma add_values_typed:
  "add_scores pre scores all_scores = Inr result \<Longrightarrow>
   add_values parse_float pre
     (map (\<lambda>(competency, v). (competency, encode_score v)) scores) all_scores = Inr result"
proof (induction scores arbitrary: all_scores)
  case Nil
  then show ?case by simp
next
  case (Cons item scores)
  obtain c v where item: "item = (c, v)" by (cases item)
  from Cons.prems obtain x where v: "v = Number x"
    by (cases v) (simp_all add: item py_float_def)
  from Cons.prems have "add_scores pre scores (dict_set all_scores (pre @ c) x) = Inr result"
    by (simp add: item v py_float_def)
  then have "add_values parse_float pre
      (map (\<lambda>(competency, v). (competency, encode_score v)) scores)
      (dict_set all_scores (pre @ c) x) = Inr result"
    by (rule Cons.IH)
  moreover have "encode_score (Number x) = PyNumber x"
    by (simp add: encode_score_def)
  ultimately show ?case
    by (simp add: item v float_of_def and_then_def)
qed

lemma identify_priority_areas_typed:
  assumes "identify_priority_areas a = Inr areas"
  shows "identify_priority_areas_raw parse_float (encode_assessment a) = Inr areas"
proof -
  from assms obtain s1 where 1:
    "add_scores ''core_'' (get_or (core_competency_scores a) []) [] = Inr s1"
    by (auto simp: identify_priority_areas_def split: sum.splits)
  from assms 1 obtain s2 where 2:
    "add_scores ''managerial_'' (get_or (managerial_competency_scores a) []) s1 = Inr s2"
    by (auto simp: identify_priority_areas_def split: sum.splits)
  from assms 1 2 obtain s3 where 3:
    "add_scores ''leadership_'' (get_or (leadership_competency_scores a) []) s2 = Inr s3"
    by (auto simp: identify_priority_areas_def split: sum.splits)
  from assms 1 2 3 have areas: "areas = take 5 (sort_key snd s3)"
    by (simp add: identify_priority_areas_def)
  show ?thesis
    unfolding identify_priority_areas_raw_def get_core get_managerial get_leadership
    by (simp add: and_then_def items_group [unfolded and_then_def]
          add_values_typed [OF 1] add_values_typed [OF 2] add_values_typed [OF 3] areas)
qed

lemma and_then_Inr: "and_then (Inr x) f = f x"
  by (simp add: and_then_def)

lemma lower_field:
  "and_then (py_lower (case field of Some v \<Rightarrow> PyStr v | None \<Rightarrow> PyStr '''')) f =
     f (str_lower (get_or field ''''))"
  by (cases field) (simp_all add: and_then_def py_lower_def get_or_def)

lemma calculate_relevance_score_typed:
  "calculate_relevance_score_raw competency score details (encode_assessment a) =
     Inr (calculate_relevance_score competency score details a)"
  unfolding calculate_relevance_score_raw_def calculate_relevance_score_def Let_def
    get_current_position get_division get_experience_level and_then_Inr lower_field
  by (rule refl)

lemma filter_by_context_typed:
  "filter_by_context_raw self set_order trainings
     (case p of Some v \<Rightarrow> PyStr v | None \<Rightarrow> PyStr '''')
     (case d of Some v \<Rightarrow> PyStr v | None \<Rightarrow> PyStr '''')
     (case e of Some v \<Rightarrow> PyStr v | None \<Rightarrow> PyStr '''') =
   Inr (filter_by_context self set_order trainings (get_or p '''') (get_or d '''')
          (get_or e ''''))"
  by (cases p; cases d; cases e) (simp_all add: filter_by_context_raw_def get_or_def)

lemma score_trainings_typed:
  "score_trainings self (encode_assessment a) competency score schools recs =
     Inr (recs @ concat (map (\<lambda>training_school.
            case get_training_details self training_school of
              None \<Rightarrow> []
            | Some details \<Rightarrow>
                [\<lparr>recommendation.competency_gap = competency,
                  recommendation.current_score = score,
                  training_details = details,
                  recommendation.relevance_score =
                    calculate_relevance_score competency score details a,
                  priority_level = get_priority_level score,
                  recommendation.expected_improvement = min 2.0 (5.0 - score),
                  recommendation.timeline = get_timeline (get_priority_level score)\<rparr>])
          schools))"
  by (induction schools arbitrary: recs)
    (simp_all add: calculate_relevance_score_typed and_then_Inr split: option.splits)

lemma collect_recommendations_typed:
  "collect_recommendations self set_order (encode_assessment a) areas recs =
     Inr (recs @ concat (map (recommendations_for self set_order a) areas))"
proof (induction areas arbitrary: recs)
  case Nil
  then show ?case by simp
next
  case (Cons area areas)
  obtain competency score where area: "area = (competency, score)" by (cases area)
  show ?case
  proof (cases "dict_get (competency_training_mapping self) competency [] = []")
    case True
    then show ?thesis
      by (simp add: area Cons.IH recommendations_for_def)
  next
    case False
    then show ?thesis
      by (simp add: area Let_def get_current_position get_division get_experience_level
            and_then_Inr filter_by_context_typed score_trainings_typed Cons.IH
            recommendations_for_def cong: option.case_cong)
  qed
qed

lemma build_response_typed:
  "build_response_raw today describe (encode_assessment a) recs =
     Inr (encode_response (build_response today a recs))"
  by (simp add: build_response_raw_def build_response_body_def build_response_def
        encode_response_def get_employee_id and_then_Inr Let_def case_prod_beta get_or_def
        split: option.splits)

text \<open>
  The whole function: when every score of the assessment is a number, the function on the
  dictionary returns the response of the function on the record.
\<close>

lemma recommend_training_raw_typed:
  assumes "identify_priority_areas a = Inr areas"
  shows "recommend_training_raw self set_order today parse_float describe
           (encode_assessment a) =
         Inr (encode_response (recommend_training self set_order today a))"
  using assms
  by (simp add: recommend_training_raw_def recommend_training_body_def
        recommend_training_def identify_priority_areas_typed and_then_Inr
        collect_recommendations_typed build_response_typed Let_def)

section \<open>Faults\<close>

lemma py_get_dict: "py_get (PyDict entries) key dflt = Inr (dict_get entries key dflt)"
  by (simp add: py_get_def)

lemma fault_response_dict:
  "fault_response describe e (PyDict entries) =
     Inr \<lparr>error = Some (describe e),
          employee_id = dict_get entries ''employee_id'' (PyStr ''Unknown''),
          assessment_date = None,
          recommendations = [],
          development_path = None,
          summary =
            \<lparr>total_recommendations = 0, total_estimated_cost = 0,
             total_estimated_duration = 0\<rparr>\<rparr>"
  by (simp add: fault_response_def and_then_def py_get_dict)

text \<open>
  On a dictionary the body of \<^verbatim>\<open>_build_response\<close> has nothing that raises: the
  function returns the regular response and its handler is not entered.
\<close>

lemma build_response_raw_dict:
  "\<exists>response. build_response_raw today describe (PyDict entries) recs = Inr response
      \<and> error response = None
      \<and> employee_id response = dict_get entries ''employee_id'' (PyStr ''Unknown'')"
  by (simp add: build_response_raw_def build_response_body_def and_then_def py_get_dict
        Let_def case_prod_beta)

text \<open>
  What the handlers cannot catch: an assessment that is no dictionary makes the body
  raise, and then the handler raise as well, on the same \<^verbatim>\<open>get\<close>. That exception
  reaches the caller.
\<close>

lemma recommend_training_raw_not_a_dictionary:
  assumes "\<forall>entries. assessment_data \<noteq> PyDict entries"
  shows "recommend_training_raw self set_order today parse_float describe assessment_data =
           Inl (AttributeError assessment_data ''get'')"
proof -
  have get: "py_get assessment_data key dflt = Inl (AttributeError assessment_data ''get'')"
    for key dflt
    using assms by (cases assessment_data) (simp_all add: py_get_def)
  have "recommend_training_body self set_order today parse_float describe assessment_data =
          Inl (AttributeError assessment_data ''get'')"
    by (simp add: recommend_training_body_def identify_priority_areas_raw_def and_then_def get)
  then show ?thesis
    by (simp add: recommend_training_raw_def fault_response_def and_then_def get)
qed

text \<open>
  Claim C8. For every assessment dictionary, whatever its values, no exception of the
  assembly reaches the caller: \<open>recommend_training_raw\<close> returns a response. Whenever the
  body of its \<^verbatim>\<open>try\<close> raises an exception \<open>e\<close> (an \<^verbatim>\<open>items\<close> on a group that is no
  dictionary, a \<^verbatim>\<open>float\<close> on a score that is no number, a \<^verbatim>\<open>lower\<close> on a position,
  division or experience level that is no string), that response carries the text of
  \<open>e\<close> as its error, the employee identifier of the assessment, or "Unknown" when the
  key is absent, no recommendation, and a summary of three zeros.
\<close>

theorem recommend_training_raw_catches:
  "(\<exists>response.
      recommend_training_raw self set_order today parse_float describe (PyDict entries) =
        Inr response)
   \<and> (recommend_training_body self set_order today parse_float describe (PyDict entries) = Inl e
        \<longrightarrow>
        recommend_training_raw self set_order today parse_float describe (PyDict entries) =
          Inr \<lparr>error = Some (describe e),
               employee_id = dict_get entries ''employee_id'' (PyStr ''Unknown''),
               assessment_date = None,
               recommendations = [],
               development_path = None,
               summary =
                 \<lparr>total_recommendations = 0, total_estimated_cost = 0,
                  total_estimated_duration = 0\<rparr>\<rparr>)"
proof (cases "recommend_training_body self set_order today parse_float describe (PyDict entries)")
  case (Inl e')
  then show ?thesis
    by (simp add: recommend_training_raw_def fault_response_dict)
next
  case (Inr response)
  then show ?thesis
    by (simp add: recommend_training_raw_def)
qed

lemma group_is_list_raises:
  "recommend_training_body TrainingRecommendationSystem remdups ''2024-01-01'' no_number
     exn_name group_is_list = Inl (AttributeError (PyList [PyNumber 1.2]) ''items'')"
  by code_simp

lemma score_is_none_raises:
  "recommend_training_body TrainingRecommendationSystem remdups ''2024-01-01'' no_number
     exn_name score_is_none = Inl (TypeError PyNone)"
  by code_simp

lemma position_is_none_raises:
  "recommend_training_body TrainingRecommendationSystem remdups ''2024-01-01'' no_number
     exn_name position_is_none = Inl (AttributeError PyNone ''lower'')"
  by code_simp

theorem recommend_training_raw_catches_witness:
  "recommend_training_body TrainingRecommendationSystem remdups ''2024-01-01'' no_number
     exn_name group_is_list = Inl (AttributeError (PyList [PyNumber 1.2]) ''items'')
   \<and> recommend_training_raw TrainingRecommendationSystem remdups ''2024-01-01'' no_number
       exn_name group_is_list =
       Inr \<lparr>error = Some ''AttributeError'', employee_id = PyStr ''EMP007'',
            assessment_date = None, recommendations = [], development_path = None,
            summary = \<lparr>total_recommendations = 0, total_estimated_cost = 0,
                       total_estimated_duration = 0\<rparr>\<rparr>
   \<and> recommend_training_body TrainingRecommendationSystem remdups ''2024-01-01'' no_number
       exn_name score_is_none = Inl (TypeError PyNone)
   \<and> recommend_training_raw TrainingRecommendationSystem remdups ''2024-01-01'' no_number
       exn_name score_is_none =
       Inr \<lparr>error = Some ''TypeError'', employee_id = PyStr ''Unknown'',
            assessment_date = None, recommendations = [], development_path = None,
            summary = \<lparr>total_recommendations = 0, total_estimated_cost = 0,
                       total_estimated_duration = 0\<rparr>\<rparr>
   \<and> recommend_training_body TrainingRecommendationSystem remdups ''2024-01-01'' no_number
       exn_name position_is_none = Inl (AttributeError PyNone ''lower'')
   \<and> recommend_training_raw TrainingRecommendationSystem remdups ''2024-01-01'' no_number
       exn_name position_is_none =
       Inr \<lparr>error = Some ''AttributeError'', employee_id = PyNumber 7,
            assessment_date = None, recommendations = [], development_path = None,
            summary = \<lparr>total_recommendations = 0, total_estimated_cost = 0,
                       total_estimated_duration = 0\<rparr>\<rparr>"
proof -
  have 1: "recommend_training_raw TrainingRecommendationSystem remdups ''2024-01-01'' no_number
       exn_name group_is_list =
       Inr \<lparr>error = Some ''AttributeError'', employee_id = PyStr ''EMP007'',
            assessment_date = None, recommendations = [], development_path = None,
            summary = \<lparr>total_recommendations = 0, total_estimated_cost = 0,
                       total_estimated_duration = 0\<rparr>\<rparr>"
    using group_is_list_raises
      recommend_training_raw_catches [of TrainingRecommendationSystem remdups "''2024-01-01''"
        no_number exn_name _ "AttributeError (PyList [PyNumber 1.2]) ''items''"]
    by (simp add: group_is_list_def exn_name_def dict_get_def)
  have 2: "recommend_training_raw TrainingRecommendationSystem remdups ''2024-01-01'' no_number
       exn_name score_is_none =
       Inr \<lparr>error = Some ''TypeError'', employee_id = PyStr ''Unknown'',
            assessment_date = None, recommendations = [], development_path = None,
            summary = \<lparr>total_recommendations = 0, total_estimated_cost = 0,
                       total_estimated_duration = 0\<rparr>\<rparr>"
    using score_is_none_raises
      recommend_training_raw_catches [of TrainingRecommendationSystem remdups "''2024-01-01''"
        no_number exn_name _ "TypeError PyNone"]
    by (simp add: score_is_none_def exn_name_def dict_get_def)
  have 3: "recommend_training_raw TrainingRecommendationSystem remdups ''2024-01-01'' no_number
       exn_name position_is_none =
       Inr \<lparr>error = Some ''AttributeError'', employee_id = PyNumber 7,
            assessment_date = None, recommendations = [], development_path = None,
            summary = \<lparr>total_recommendations = 0, total_estimated_cost = 0,
                       total_estimated_duration = 0\<rparr>\<rparr>"
    using position_is_none_raises
      recommend_training_raw_catches [of TrainingRecommendationSystem remdups "''2024-01-01''"
        no_number exn_name _ "AttributeError PyNone ''lower''"]
    by (simp add: position_is_none_def exn_name_def dict_get_def)
  show ?thesis
    by (intro conjI)
      (rule group_is_list_raises 1 score_is_none_raises 2 position_is_none_raises 3)+
qed

end
